theory Spec2Isabelle
  imports Complex_Main "HOL-Library.Word"
begin

section \<open>JavaScript values\<close>

text \<open>
  The request body, the stored documents and the JSON responses are JavaScript values.
  A number is an IEEE double: not-a-number, an infinity, or a finite value, which is a
  rational (the two zeros are one value here: both are falsy, and equal under
  \<^verbatim>\<open>===\<close>). A string is its sequence of code units, restricted to the Latin-1
  range U+0000..U+00FF, the range of \<^typ>\<open>char\<close>. An object is the list of its own
  properties in enumeration order; a property read takes the first entry of a key.
\<close>

datatype jsnum = NaN | PosInfinity | NegInfinity | Finite rat

datatype jsval =
    JUndefined
  | JNull
  | JBool bool
  | JNum jsnum
  | JStr string
  | JArr "jsval list"
  | JObj "(string \<times> jsval) list"
  | JDate nat
  | JObjectId nat

type_synonym document = "(string \<times> jsval) list"

text \<open>\<^verbatim>\<open>typeof v\<close>.\<close>

fun typeof :: "jsval \<Rightarrow> string" where
  "typeof JUndefined = ''undefined''"
| "typeof JNull = ''object''"
| "typeof (JBool b) = ''boolean''"
| "typeof (JNum n) = ''number''"
| "typeof (JStr s) = ''string''"
| "typeof (JArr xs) = ''object''"
| "typeof (JObj kvs) = ''object''"
| "typeof (JDate t) = ''object''"
| "typeof (JObjectId i) = ''object''"

text \<open>
  Truthiness, what \<^verbatim>\<open>!v\<close>, \<^verbatim>\<open>v || w\<close> and \<^verbatim>\<open>if (v)\<close> test: false for
  \<^verbatim>\<open>undefined\<close>, \<^verbatim>\<open>null\<close>, \<^verbatim>\<open>false\<close>, zero, NaN and the empty string.
\<close>

fun truthy :: "jsval \<Rightarrow> bool" where
  "truthy JUndefined = False"
| "truthy JNull = False"
| "truthy (JBool b) = b"
| "truthy (JNum NaN) = False"
| "truthy (JNum (Finite q)) = (q \<noteq> 0)"
| "truthy (JNum PosInfinity) = True"
| "truthy (JNum NegInfinity) = True"
| "truthy (JStr s) = (s \<noteq> [])"
| "truthy (JArr xs) = True"
| "truthy (JObj kvs) = True"
| "truthy (JDate t) = True"
| "truthy (JObjectId i) = True"

text \<open>
  A property read \<^verbatim>\<open>v.k\<close> or \<^verbatim>\<open>v[k]\<close> for the field names of this program
  (form fields, none of them a built-in property of strings, arrays or dates): the
  own property of an object, \<^verbatim>\<open>undefined\<close> for every other value. The read throws
  on \<^verbatim>\<open>undefined\<close> and \<^verbatim>\<open>null\<close>; every caller below excludes them first.
\<close>

definition lookup :: "document \<Rightarrow> string \<Rightarrow> jsval" where
  "lookup kvs k = (case map_of kvs k of Some v \<Rightarrow> v | None \<Rightarrow> JUndefined)"

fun get :: "jsval \<Rightarrow> string \<Rightarrow> jsval" where
  "get (JObj kvs) k = lookup kvs k"
| "get v k = JUndefined"

text \<open>
  \<^verbatim>\<open>a === b\<close> between a value read from a stored document and a value of the request:
  primitives compare by value (NaN equals nothing), objects by identity, and an object
  of one is never an object of the other.
\<close>

fun strict_eq :: "jsval \<Rightarrow> jsval \<Rightarrow> bool" where
  "strict_eq JUndefined JUndefined = True"
| "strict_eq JNull JNull = True"
| "strict_eq (JBool a) (JBool b) = (a = b)"
| "strict_eq (JNum a) (JNum b) = (a \<noteq> NaN \<and> a = b)"
| "strict_eq (JStr a) (JStr b) = (a = b)"
| "strict_eq a b = False"

section \<open>Regular expressions\<close>

text \<open>
  The regular expressions of the source use character classes, concatenation and
  \<^verbatim>\<open>+\<close>, anchored at both ends, so \<^verbatim>\<open>test\<close> decides membership of the whole
  string. The matcher takes the derivative of the expression by each code unit.
\<close>

datatype regex =
    Zero
  | One
  | Atom "char \<Rightarrow> bool"
  | Alt regex regex
  | Seq regex regex
  | Star regex

fun nullable :: "regex \<Rightarrow> bool" where
  "nullable Zero = False"
| "nullable One = True"
| "nullable (Atom P) = False"
| "nullable (Alt r s) = (nullable r \<or> nullable s)"
| "nullable (Seq r s) = (nullable r \<and> nullable s)"
| "nullable (Star r) = True"

fun deriv :: "char \<Rightarrow> regex \<Rightarrow> regex" where
  "deriv c Zero = Zero"
| "deriv c One = Zero"
| "deriv c (Atom P) = (if P c then One else Zero)"
| "deriv c (Alt r s) = Alt (deriv c r) (deriv c s)"
| "deriv c (Seq r s) =
     (if nullable r then Alt (Seq (deriv c r) s) (deriv c s) else Seq (deriv c r) s)"
| "deriv c (Star r) = Seq (deriv c r) (Star r)"

fun regex_test :: "regex \<Rightarrow> string \<Rightarrow> bool" where
  "regex_test r [] = nullable r"
| "regex_test r (c # cs) = regex_test (deriv c r) cs"

definition Plus :: "regex \<Rightarrow> regex" where
  "Plus r = Seq r (Star r)"

text \<open>\<^verbatim>\<open>\s\<close> on the code units below U+0100: tab, line feed, vertical tab, form feed,
  carriage return, space and the no-break space.\<close>

definition is_space :: "char \<Rightarrow> bool" where
  "is_space c =
     (c \<in> set [CHR 0x09, CHR 0x0A, CHR 0x0B, CHR 0x0C, CHR 0x0D, CHR 0x20, CHR 0xA0])"

text \<open>\<^verbatim>\<open>[^\s@]\<close>.\<close>

definition not_space_at :: "char \<Rightarrow> bool" where
  "not_space_at c = (\<not> is_space c \<and> c \<noteq> CHR ''@'')"

text \<open>\<^verbatim>\<open>/^[^\s@]+@[^\s@]+\.[^\s@]+$/\<close>.\<close>

definition emailRegex :: regex where
  "emailRegex =
     Seq (Plus (Atom not_space_at))
       (Seq (Atom (\<lambda>c. c = CHR ''@''))
         (Seq (Plus (Atom not_space_at))
           (Seq (Atom (\<lambda>c. c = CHR ''.'')) (Plus (Atom not_space_at)))))"

text \<open>
  \<^verbatim>\<open>emailRegex.test(v)\<close>. \<^verbatim>\<open>test\<close> converts its argument to a string first; both
  calls in the validator come after a \<^verbatim>\<open>typeof v === "string"\<close> check, so only the
  string case computes anything.
\<close>

fun emailRegex_test :: "jsval \<Rightarrow> bool" where
  "emailRegex_test (JStr s) = regex_test emailRegex s"
| "emailRegex_test v = False"

section \<open>The validator\<close>

text \<open>\<^verbatim>\<open>isValidFormData\<close> of \<^verbatim>\<open>src/functions/index.cjs\<close> returns
  \<^verbatim>\<open>{ valid: true }\<close> or \<^verbatim>\<open>{ valid: false, error }\<close>.\<close>

datatype validation = Valid | Invalid string

definition optionalStringFields :: "string list" where
  "optionalStringFields =
     [''github_link'', ''linkedin_link'', ''instagram_link'', ''team_name'',
      ''referrer_name'', ''referrer_email'']"

text \<open>The loop over the optional fields: the first field that is present and not a
  string ends it with that field's message.\<close>

fun check_optional :: "jsval \<Rightarrow> string list \<Rightarrow> string option" where
  "check_optional body [] = None"
| "check_optional body (field # fields) =
     (if get body field \<noteq> JUndefined \<and> typeof (get body field) \<noteq> ''string''
      then Some (field @ '' must be a string if provided'')
      else check_optional body fields)"

text \<open>The message \<^verbatim>\<open>Gender is required and must be 'M' or 'F'\<close>, whose last
  character is a single quote.\<close>

definition gender_error :: string where
  "gender_error = ''Gender is required and must be 'M' or 'F'' @ [CHR 0x27]"

definition isValidFormData :: "jsval \<Rightarrow> validation" where
  "isValidFormData body =
     (if typeof body \<noteq> ''object'' \<or> body = JNull
        then Invalid ''Request body must be an object''
      else if \<not> truthy (get body ''captchaToken'')
              \<or> typeof (get body ''captchaToken'') \<noteq> ''string''
        then Invalid ''CAPTCHA token is required''
      else if \<not> truthy (get body ''name'') \<or> typeof (get body ''name'') \<noteq> ''string''
        then Invalid ''Name is required and must be a string''
      else if \<not> truthy (get body ''roll_number'')
              \<or> typeof (get body ''roll_number'') \<noteq> ''number''
        then Invalid ''Roll number is required and must be a number''
      else if \<not> truthy (get body ''gender'')
              \<or> (get body ''gender'' \<noteq> JStr ''M'' \<and> get body ''gender'' \<noteq> JStr ''F'')
        then Invalid gender_error
      else if \<not> truthy (get body ''email'') \<or> typeof (get body ''email'') \<noteq> ''string''
        then Invalid ''Email is required and must be a string''
      else if \<not> truthy (get body ''about'') \<or> typeof (get body ''about'') \<noteq> ''string''
        then Invalid ''About is required and must be a string''
      else if \<not> emailRegex_test (get body ''email'')
        then Invalid ''Invalid email format''
      else (case check_optional body optionalStringFields of
              Some e \<Rightarrow> Invalid e
            | None \<Rightarrow>
                if truthy (get body ''referrer_email'')
                   \<and> \<not> emailRegex_test (get body ''referrer_email'')
                then Invalid ''Invalid referrer email format''
                else Valid))"

section \<open>The validator's rules, as the specification lists them\<close>

text \<open>
  A rule is a test that fails on some bodies, with the reason given when it does.
  \<open>first_failure\<close> runs a list of rules in order and stops at the first that fails.
\<close>

type_synonym rule = "(jsval \<Rightarrow> bool) \<times> string"

fun first_failure :: "rule list \<Rightarrow> jsval \<Rightarrow> validation" where
  "first_failure [] body = Valid"
| "first_failure ((fails, reason) # rules) body =
     (if fails body then Invalid reason else first_failure rules body)"

definition rule_object :: rule where
  "rule_object = (\<lambda>body. typeof body \<noteq> ''object'' \<or> body = JNull,
     ''Request body must be an object'')"

definition rule_token :: rule where
  "rule_token = (\<lambda>body. \<not> truthy (get body ''captchaToken'')
       \<or> typeof (get body ''captchaToken'') \<noteq> ''string'',
     ''CAPTCHA token is required'')"

definition rule_name :: rule where
  "rule_name = (\<lambda>body. \<not> truthy (get body ''name'') \<or> typeof (get body ''name'') \<noteq> ''string'',
     ''Name is required and must be a string'')"

definition rule_roll_number :: rule where
  "rule_roll_number = (\<lambda>body. \<not> truthy (get body ''roll_number'')
       \<or> typeof (get body ''roll_number'') \<noteq> ''number'',
     ''Roll number is required and must be a number'')"

definition rule_gender :: rule where
  "rule_gender = (\<lambda>body. \<not> truthy (get body ''gender'')
       \<or> (get body ''gender'' \<noteq> JStr ''M'' \<and> get body ''gender'' \<noteq> JStr ''F''),
     gender_error)"

definition rule_email_present :: rule where
  "rule_email_present = (\<lambda>body. \<not> truthy (get body ''email'')
       \<or> typeof (get body ''email'') \<noteq> ''string'',
     ''Email is required and must be a string'')"

definition rule_email_pattern :: rule where
  "rule_email_pattern = (\<lambda>body. \<not> emailRegex_test (get body ''email''),
     ''Invalid email format'')"

definition rule_about :: rule where
  "rule_about = (\<lambda>body. \<not> truthy (get body ''about'') \<or> typeof (get body ''about'') \<noteq> ''string'',
     ''About is required and must be a string'')"

definition rule_optional :: "string \<Rightarrow> rule" where
  "rule_optional field =
     (\<lambda>body. get body field \<noteq> JUndefined \<and> typeof (get body field) \<noteq> ''string'',
      field @ '' must be a string if provided'')"

definition rule_referrer_email :: rule where
  "rule_referrer_email = (\<lambda>body. truthy (get body ''referrer_email'')
       \<and> \<not> emailRegex_test (get body ''referrer_email''),
     ''Invalid referrer email format'')"

text \<open>The order the specification gives: the email pattern before \<open>about\<close>.\<close>

definition spec_order_rules :: "rule list" where
  "spec_order_rules =
     [rule_object, rule_token, rule_name, rule_roll_number, rule_gender,
      rule_email_present, rule_email_pattern, rule_about]
     @ map rule_optional optionalStringFields @ [rule_referrer_email]"

text \<open>The order of the code: every required field's presence first, then the email
  pattern.\<close>

definition code_order_rules :: "rule list" where
  "code_order_rules =
     [rule_object, rule_token, rule_name, rule_roll_number, rule_gender,
      rule_email_present, rule_about, rule_email_pattern]
     @ map rule_optional optionalStringFields @ [rule_referrer_email]"

text \<open>
  The specification's \<open>local@domain.tld\<close>: three non-empty parts without white space
  or \<open>@\<close>, the first two separated by \<open>@\<close>, the last two by a dot.
\<close>

definition email_shape :: "string \<Rightarrow> bool" where
  "email_shape s =
     (\<exists>l d t. s = l @ ''@'' @ d @ ''.'' @ t \<and> l \<noteq> [] \<and> d \<noteq> [] \<and> t \<noteq> []
        \<and> (\<forall>c \<in> set (l @ d @ t). \<not> is_space c \<and> c \<noteq> CHR ''@''))"

text \<open>The language of a regular expression, to state what the matcher decides.\<close>

inductive_set star :: "string set \<Rightarrow> string set" for A :: "string set" where
  star_nil: "[] \<in> star A"
| star_app: "u \<in> A \<Longrightarrow> v \<in> star A \<Longrightarrow> u @ v \<in> star A"

fun lang :: "regex \<Rightarrow> string set" where
  "lang Zero = {}"
| "lang One = {[]}"
| "lang (Atom P) = {[c] |c. P c}"
| "lang (Alt r s) = lang r \<union> lang s"
| "lang (Seq r s) = {u @ v |u v. u \<in> lang r \<and> v \<in> lang s}"
| "lang (Star r) = star (lang r)"

section \<open>Configuration, requests and responses\<close>

text \<open>
  The admin key is compared through its UTF-8 bytes, where code units beyond Latin-1
  and surrogates matter: the configured key and the keys of requests are strings of
  16-bit code units. \<open>ascii\<close> writes one from its ASCII text.
\<close>

type_synonym ustring = "16 word list"

definition ascii :: "string \<Rightarrow> ustring" where
  "ascii s = map (\<lambda>c. of_nat (of_char c)) s"

text \<open>\<^verbatim>\<open>process.env\<close>: a variable is unset or holds a string.\<close>

record env =
  FRONTEND_URL :: "string option"
  ADMIN_KEY :: "ustring option"
  GOOGLE_CAPTCHA_SECRET_KEY :: "string option"
  NODE_ENV :: "string option"

text \<open>Truthiness of a value that is a string or \<^verbatim>\<open>undefined\<close>, and \<^verbatim>\<open>a || b\<close>
  on two of them.\<close>

fun truthy_str :: "'a list option \<Rightarrow> bool" where
  "truthy_str None = False"
| "truthy_str (Some s) = (s \<noteq> [])"

definition or_else :: "'a list option \<Rightarrow> 'a list option \<Rightarrow> 'a list option" where
  "or_else a b = (if truthy_str a then a else b)"

text \<open>The request the Appwrite runtime hands to the function of
  \<^verbatim>\<open>src/functions/index.cjs\<close>: headers and query parameters are strings, here of
  16-bit code units, since the admin key is read from them.\<close>

record request =
  req_method :: string
  req_path :: "string option"
  req_url :: "string option"
  req_headers :: "(string \<times> ustring) list"
  req_query :: "(string \<times> ustring) list"
  req_body :: jsval

datatype payload = Json jsval | Text string

record response =
  res_status :: nat
  res_payload :: payload
  res_headers :: "(string \<times> string) list"

text \<open>A thrown value is an \<^verbatim>\<open>Error\<close> with its name and message (the platform and the
  driver throw nothing else), so \<^verbatim>\<open>isDatabaseError\<close> holds of each.\<close>

datatype js_error = Error string string

fun error_message :: "js_error \<Rightarrow> string" where
  "error_message (Error name msg) = msg"

text \<open>\<^verbatim>\<open>`${error}`\<close>, that is \<^verbatim>\<open>Error.prototype.toString\<close>.\<close>

fun error_toString :: "js_error \<Rightarrow> string" where
  "error_toString (Error name msg) =
     (if name = [] then msg else if msg = [] then name else name @ '': '' @ msg)"

definition frontendUrl :: "env \<Rightarrow> string" where
  "frontendUrl e =
     (case or_else (FRONTEND_URL e) (Some ''http://localhost:5173'') of
        Some u \<Rightarrow> u | None \<Rightarrow> [])"

definition cors_headers :: "env \<Rightarrow> (string \<times> string) list" where
  "cors_headers e =
     [(''Access-Control-Allow-Origin'', frontendUrl e),
      (''Access-Control-Allow-Methods'', ''GET, POST, OPTIONS''),
      (''Access-Control-Allow-Headers'', ''Content-Type, X-Admin-Key''),
      (''Access-Control-Allow-Credentials'', ''true'')]"

definition sendJsonResponse :: "env \<Rightarrow> jsval \<Rightarrow> nat \<Rightarrow> response" where
  "sendJsonResponse e data statusCode =
     \<lparr>res_status = statusCode, res_payload = Json data, res_headers = cors_headers e\<rparr>"

section \<open>The abuse-check collaborator\<close>

text \<open>
  What the call to \<^verbatim>\<open>siteverify\<close> does: something in the \<^verbatim>\<open>try\<close> block throws
  (the \<^verbatim>\<open>fetch\<close>, the reading of its JSON, or a property read on a reply that is
  no object), or the reply is read, with the truthiness of its \<^verbatim>\<open>success\<close>, its
  \<^verbatim>\<open>score\<close>, a number, when it has one, and its \<^verbatim>\<open>error-codes\<close> (\<^verbatim>\<open>undefined\<close>
  when it has none).
\<close>

datatype siteverify_reply =
    FetchThrows js_error
  | Reply bool "jsnum option" jsval

datatype captcha_result =
    CaptchaOk "jsnum option"
  | CaptchaFail string jsval

text \<open>\<^verbatim>\<open>data.score < 0.5\<close>: false for NaN.\<close>

fun below_half :: "jsnum \<Rightarrow> bool" where
  "below_half NaN = False"
| "below_half PosInfinity = False"
| "below_half NegInfinity = True"
| "below_half (Finite q) = (q < 1 / 2)"

text \<open>\<^verbatim>\<open>verifyCaptcha\<close> of \<^verbatim>\<open>index.cjs\<close>. The remote service is a function of the
  secret and the token sent.\<close>

definition verifyCaptcha ::
  "env \<Rightarrow> (string \<Rightarrow> jsval \<Rightarrow> siteverify_reply) \<Rightarrow> jsval \<Rightarrow> captcha_result" where
  "verifyCaptcha e siteverify token =
     (if \<not> truthy token then CaptchaFail ''CAPTCHA token is required'' JUndefined
      else case GOOGLE_CAPTCHA_SECRET_KEY e of
        None \<Rightarrow> CaptchaFail ''reCAPTCHA not configured on server'' JUndefined
      | Some secretKey \<Rightarrow>
          if secretKey = [] then CaptchaFail ''reCAPTCHA not configured on server'' JUndefined
          else (case siteverify secretKey token of
            FetchThrows err \<Rightarrow>
              CaptchaFail ''CAPTCHA verification error'' (JStr (error_message err))
          | Reply success score codes \<Rightarrow>
              if \<not> success
                then CaptchaFail ''CAPTCHA verification failed''
                       (if truthy codes then codes else JArr [])
              else (case score of
                Some sc \<Rightarrow>
                  if below_half sc
                  then CaptchaFail ''CAPTCHA score too low, please try again'' JUndefined
                  else CaptchaOk score
              | None \<Rightarrow> CaptchaOk score)))"

text \<open>\<^verbatim>\<open>verifyCaptcha\<close> of \<^verbatim>\<open>src/services/server.ts\<close>: no details, and the text of
  the thrown error in the message.\<close>

definition verifyCaptcha_ts ::
  "env \<Rightarrow> (string \<Rightarrow> jsval \<Rightarrow> siteverify_reply) \<Rightarrow> jsval \<Rightarrow> captcha_result" where
  "verifyCaptcha_ts e siteverify token =
     (if \<not> truthy token then CaptchaFail ''CAPTCHA token is required'' JUndefined
      else case GOOGLE_CAPTCHA_SECRET_KEY e of
        None \<Rightarrow> CaptchaFail ''reCAPTCHA not configured on server'' JUndefined
      | Some secretKey \<Rightarrow>
          if secretKey = [] then CaptchaFail ''reCAPTCHA not configured on server'' JUndefined
          else (case siteverify secretKey token of
            FetchThrows err \<Rightarrow>
              CaptchaFail (''CAPTCHA verification error: '' @ error_toString err) JUndefined
          | Reply success score codes \<Rightarrow>
              if \<not> success then CaptchaFail ''CAPTCHA verification failed'' JUndefined
              else (case score of
                Some sc \<Rightarrow>
                  if below_half sc
                  then CaptchaFail ''CAPTCHA score too low, please try again'' JUndefined
                  else CaptchaOk score
              | None \<Rightarrow> CaptchaOk score)))"

section \<open>The admin key\<close>

text \<open>
  \<^verbatim>\<open>Buffer.from(s)\<close> encodes a string in UTF-8. The code units are read as code points
  first: a high surrogate followed by a low one is one code point beyond U+FFFF, any
  other surrogate is replaced by U+FFFD. Each code point then takes one to four
  bytes.
\<close>

definition is_high :: "nat \<Rightarrow> bool" where
  "is_high u = (0xD800 \<le> u \<and> u < 0xDC00)"

definition is_low :: "nat \<Rightarrow> bool" where
  "is_low u = (0xDC00 \<le> u \<and> u < 0xE000)"

fun code_points :: "nat list \<Rightarrow> nat list" where
  "code_points [] = []"
| "code_points [u] = (if is_high u \<or> is_low u then [0xFFFD] else [u])"
| "code_points (u # v # us) =
     (if is_high u \<and> is_low v
      then (0x10000 + (u - 0xD800) * 0x400 + (v - 0xDC00)) # code_points us
      else if is_high u \<or> is_low u then 0xFFFD # code_points (v # us)
      else u # code_points (v # us))"

definition utf8 :: "nat \<Rightarrow> nat list" where
  "utf8 c =
     (if c < 0x80 then [c]
      else if c < 0x800 then [0xC0 + c div 64, 0x80 + c mod 64]
      else if c < 0x10000 then [0xE0 + c div 4096, 0x80 + c div 64 mod 64, 0x80 + c mod 64]
      else [0xF0 + c div 262144, 0x80 + c div 4096 mod 64, 0x80 + c div 64 mod 64,
            0x80 + c mod 64])"

definition Buffer_from :: "ustring \<Rightarrow> nat list" where
  "Buffer_from s = concat (map utf8 (code_points (map unat s)))"

text \<open>
  \<^verbatim>\<open>crypto.timingSafeEqual\<close> throws on buffers of different lengths. Otherwise it
  compares them with a constant-time algorithm (Node's documentation): it reads every
  pair of bytes, whatever they hold, and never stops at a difference. Its result here
  is whether the buffers are equal, with the number of pairs of bytes it has read, which
  is the time it takes.
\<close>

fun compare_all :: "nat list \<Rightarrow> nat list \<Rightarrow> bool \<times> nat" where
  "compare_all (x # xs) (y # ys) =
     (case compare_all xs ys of (same, n) \<Rightarrow> (x = y \<and> same, Suc n))"
| "compare_all xs ys = (True, 0)"

definition timingSafeEqual :: "nat list \<Rightarrow> nat list \<Rightarrow> js_error + bool \<times> nat" where
  "timingSafeEqual a b =
     (if length a \<noteq> length b
      then Inl (Error ''RangeError'' ''Input buffers must have the same byte length'')
      else Inr (compare_all a b))"

text \<open>\<^verbatim>\<open>validateAdminKey\<close> of \<^verbatim>\<open>index.cjs\<close>, with the time of its comparison: the
  early returns compare nothing, and the \<^verbatim>\<open>catch\<close> answers false.\<close>

fun validateAdminKey_timed :: "ustring option \<Rightarrow> ustring option \<Rightarrow> bool \<times> nat" where
  "validateAdminKey_timed (Some providedKey) (Some actualKey) =
     (if providedKey = [] \<or> actualKey = [] then (False, 0)
      else
        let providedBuf = Buffer_from providedKey;
            actualBuf = Buffer_from actualKey
        in if length providedBuf \<noteq> length actualBuf then (False, 0)
           else (case timingSafeEqual providedBuf actualBuf of
                   Inl err \<Rightarrow> (False, 0)
                 | Inr result \<Rightarrow> result))"
| "validateAdminKey_timed providedKey actualKey = (False, 0)"

text \<open>What \<^verbatim>\<open>validateAdminKey\<close> returns.\<close>

definition validateAdminKey :: "ustring option \<Rightarrow> ustring option \<Rightarrow> bool" where
  "validateAdminKey providedKey actualKey = fst (validateAdminKey_timed providedKey actualKey)"

text \<open>A string of code units is well formed when it has no lone surrogate: every high
  surrogate is followed by a low one, and every low one follows a high one.\<close>

fun well_formed :: "nat list \<Rightarrow> bool" where
  "well_formed [] = True"
| "well_formed [u] = (\<not> is_high u \<and> \<not> is_low u)"
| "well_formed (u # v # us) =
     (if is_high u then is_low v \<and> well_formed us
      else \<not> is_low u \<and> well_formed (v # us))"



text \<open>The comparison of \<^verbatim>\<open>server.ts\<close>, \<^verbatim>\<open>adminBuf.length === providedBuf.length &&
  crypto.timingSafeEqual(adminBuf, providedBuf)\<close>, with its time.\<close>

definition keysMatch_timed :: "nat list \<Rightarrow> nat list \<Rightarrow> bool \<times> nat" where
  "keysMatch_timed adminBuf providedBuf =
     (if length adminBuf = length providedBuf
      then (case timingSafeEqual adminBuf providedBuf of
              Inl err \<Rightarrow> (False, 0)
            | Inr result \<Rightarrow> result)
      else (False, 0))"

section \<open>The document store\<close>

text \<open>
  The collection is the list of its documents, as \<^verbatim>\<open>find({}).toArray()\<close> returns them,
  together with the log of the calls a request made on the driver. A call can throw;
  whether it does is given from outside, with the rest of what a request cannot decide:
  the remote abuse check, the readings of the clock, the identifier the store assigns,
  how a value that is not a string prints (\<^verbatim>\<open>String(v)\<close>), how a member inherited
  from \<^verbatim>\<open>Object.prototype\<close> prints, and the errors thrown for a duplicate and when
  \<^verbatim>\<open>undefined\<close> or \<^verbatim>\<open>null\<close> is destructured.
\<close>

datatype store_op =
    Connect
  | FindOne jsval jsval
  | InsertOne document
  | FindAll
  | Close
  | InsertData document
  | CollectionToCsv

record store =
  docs :: "document list"
  ops :: "store_op list"

record world =
  siteverify :: "string \<Rightarrow> jsval \<Rightarrow> siteverify_reply"
  clock :: "nat \<Rightarrow> nat"
  toISOString :: "nat \<Rightarrow> string"
  new_id :: nat
  to_string :: "jsval \<Rightarrow> string"
  connect_fault :: "js_error option"
  findOne_fault :: "js_error option"
  insertOne_fault :: "js_error option"
  find_fault :: "js_error option"
  close_fault :: "js_error option"
  insertData_fault :: "js_error option"
  duplicate_error :: js_error
  destructure_error :: js_error
  inherited_text :: "string \<Rightarrow> string"
  collection_to_csv_result :: "js_error + string"

definition record_op :: "store_op \<Rightarrow> store \<Rightarrow> store" where
  "record_op op st = st\<lparr>ops := ops st @ [op]\<rparr>"

text \<open>The filter \<^verbatim>\<open>{ $or: [{ roll_number: r }, { email: m }] }\<close>: a document matches
  when one of the two fields holds the value asked for. \<^verbatim>\<open>findOne\<close> returns the
  first match in stored order.\<close>

definition matches_or :: "jsval \<Rightarrow> jsval \<Rightarrow> document \<Rightarrow> bool" where
  "matches_or r m d = (lookup d ''roll_number'' = r \<or> lookup d ''email'' = m)"

definition findOne :: "jsval \<Rightarrow> jsval \<Rightarrow> store \<Rightarrow> document option" where
  "findOne r m st = find (matches_or r m) (docs st)"

text \<open>\<^verbatim>\<open>insertOne\<close>: a document without an \<^verbatim>\<open>_id\<close> gets the store's new identifier;
  the stored document has its \<^verbatim>\<open>_id\<close> first.\<close>

definition inserted_id :: "world \<Rightarrow> document \<Rightarrow> jsval" where
  "inserted_id w d =
     (if lookup d ''_id'' = JUndefined \<or> lookup d ''_id'' = JNull then JObjectId (new_id w)
      else lookup d ''_id'')"

definition stored_form :: "world \<Rightarrow> document \<Rightarrow> document" where
  "stored_form w d = (''_id'', inserted_id w d) # filter (\<lambda>(k, v). k \<noteq> ''_id'') d"

definition insertOne :: "world \<Rightarrow> document \<Rightarrow> store \<Rightarrow> store" where
  "insertOne w d st = st\<lparr>docs := docs st @ [stored_form w d]\<rparr>"

section \<open>Objects\<close>

text \<open>The decimal numeral of an array index.\<close>

fun decimal :: "nat \<Rightarrow> string" where
  "decimal n =
     (if n < 10 then [char_of (48 + n)]
      else decimal (n div 10) @ [char_of (48 + n mod 10)])"

text \<open>The own enumerable properties of a value, which a rest pattern or a spread
  copies: those of an object, the indexed elements of an array or a string, none of
  any other value.\<close>

fun own_props :: "jsval \<Rightarrow> document" where
  "own_props (JObj kvs) = kvs"
| "own_props (JArr xs) = zip (map decimal [0..<length xs]) xs"
| "own_props (JStr s) = zip (map decimal [0..<length s]) (map (\<lambda>c. JStr [c]) s)"
| "own_props v = []"

text \<open>\<^verbatim>\<open>const { k, ...rest } = v\<close>.\<close>

definition rest_without :: "string \<Rightarrow> jsval \<Rightarrow> document" where
  "rest_without k v = filter (\<lambda>(k', x). k' \<noteq> k) (own_props v)"

text \<open>A property written in an object literal after a spread: it replaces the value
  of a key the spread brought, in place, and is appended otherwise.\<close>

fun set_prop :: "string \<Rightarrow> jsval \<Rightarrow> document \<Rightarrow> document" where
  "set_prop k v [] = [(k, v)]"
| "set_prop k v ((k', x) # kvs) =
     (if k' = k then (k, v) # kvs else (k', x) # set_prop k v kvs)"

section \<open>The function of \<^verbatim>\<open>src/functions/index.cjs\<close>\<close>

text \<open>The \<^verbatim>\<open>catch (dbError)\<close> of a route: status 500, with the error's message only
  in development.\<close>

definition db_error_response :: "env \<Rightarrow> string \<Rightarrow> js_error \<Rightarrow> response" where
  "db_error_response e what err =
     sendJsonResponse e
       (JObj [(''error'', JStr what),
              (''details'',
               if NODE_ENV e = Some ''development'' then JStr (error_message err)
               else JUndefined)])
       500"

text \<open>\<^verbatim>\<open>POST /submit\<close>: validate, check the token, strip it, connect, look for a
  duplicate, insert with the two timestamps, close, answer.\<close>

definition submit :: "env \<Rightarrow> world \<Rightarrow> request \<Rightarrow> store \<Rightarrow> response \<times> store" where
  "submit e w req st =
     (case isValidFormData (req_body req) of
        Invalid err \<Rightarrow> (sendJsonResponse e (JObj [(''error'', JStr err)]) 400, st)
      | Valid \<Rightarrow>
         (case verifyCaptcha e (siteverify w) (get (req_body req) ''captchaToken'') of
            CaptchaFail err details \<Rightarrow>
              (sendJsonResponse e (JObj [(''error'', JStr err), (''details'', details)]) 400, st)
          | CaptchaOk score \<Rightarrow>
             (let dataToSave = rest_without ''captchaToken'' (req_body req);
                  st1 = record_op Connect st
              in case connect_fault w of
                Some err \<Rightarrow> (db_error_response e ''Failed to save data'' err, st1)
              | None \<Rightarrow>
                 (let st2 = record_op
                        (FindOne (lookup dataToSave ''roll_number'') (lookup dataToSave ''email''))
                        st1
                  in case findOne_fault w of
                    Some err \<Rightarrow> (db_error_response e ''Failed to save data'' err, st2)
                  | None \<Rightarrow>
                     (case findOne (lookup dataToSave ''roll_number'')
                             (lookup dataToSave ''email'') st2 of
                        Some existingData \<Rightarrow>
                          (let st3 = record_op Close st2
                           in case close_fault w of
                             Some err \<Rightarrow> (db_error_response e ''Failed to save data'' err, st3)
                           | None \<Rightarrow>
                              (let duplicateField =
                                     (if strict_eq (lookup existingData ''roll_number'')
                                           (lookup dataToSave ''roll_number'')
                                      then ''roll number'' else ''email'');
                                   errorMsg = ''Registration with this '' @ duplicateField
                                     @ '' already exists''
                               in (sendJsonResponse e (JObj [(''error'', JStr errorMsg)]) 409,
                                   st3)))
                      | None \<Rightarrow>
                          (let doc = set_prop ''submittedAt'' (JStr (toISOString w (clock w 1)))
                                 (set_prop ''createdAt'' (JDate (clock w 0)) dataToSave);
                               st3 = record_op (InsertOne doc) st2
                           in case insertOne_fault w of
                             Some err \<Rightarrow> (db_error_response e ''Failed to save data'' err, st3)
                           | None \<Rightarrow>
                              (let st4 = record_op Close (insertOne w doc st3)
                               in case close_fault w of
                                 Some err \<Rightarrow>
                                   (db_error_response e ''Failed to save data'' err, st4)
                               | None \<Rightarrow>
                                  (sendJsonResponse e
                                     (JObj [(''success'', JBool True),
                                            (''id'', JStr (to_string w (inserted_id w doc))),
                                            (''message'', JStr ''Form submitted successfully'')])
                                     200,
                                   st4))))))))"

section \<open>CSV export\<close>

text \<open>\<^verbatim>\<open>xs.join(sep)\<close> on strings.\<close>

fun join :: "string \<Rightarrow> string list \<Rightarrow> string" where
  "join sep [] = []"
| "join sep [x] = x"
| "join sep (x # y # ys) = x @ sep @ join sep (y # ys)"

text \<open>\<^verbatim>\<open>join\<close> on values prints \<^verbatim>\<open>undefined\<close> and \<^verbatim>\<open>null\<close> as the empty string,
  a string as itself and any other value as \<^verbatim>\<open>String(v)\<close>.\<close>

definition join_text :: "(jsval \<Rightarrow> string) \<Rightarrow> jsval \<Rightarrow> string" where
  "join_text str v =
     (case v of JUndefined \<Rightarrow> [] | JNull \<Rightarrow> [] | JStr s \<Rightarrow> s | _ \<Rightarrow> str v)"

text \<open>\<^verbatim>\<open>value.replace(/"/g, '""')\<close>.\<close>

definition replace_quotes :: "string \<Rightarrow> string" where
  "replace_quotes s = concat (map (\<lambda>c. if c = CHR 0x22 then [CHR 0x22, CHR 0x22] else [c]) s)"

text \<open>The callback of the inner \<^verbatim>\<open>map\<close>: a string is escaped and quoted, any other
  value is returned as it is.\<close>

fun csv_cell :: "jsval \<Rightarrow> jsval" where
  "csv_cell (JStr s) = JStr ([CHR 0x22] @ replace_quotes s @ [CHR 0x22])"
| "csv_cell v = v"

text \<open>The names every record inherits from \<^verbatim>\<open>Object.prototype\<close>.\<close>

definition object_prototype_names :: "string list" where
  "object_prototype_names =
     [''constructor'', ''hasOwnProperty'', ''isPrototypeOf'', ''propertyIsEnumerable'',
      ''toLocaleString'', ''toString'', ''valueOf'', ''__proto__'', ''__defineGetter__'',
      ''__defineSetter__'', ''__lookupGetter__'', ''__lookupSetter__'']"

text \<open>
  The text of one cell. \<^verbatim>\<open>row[field]\<close> is the own property when the row has one;
  otherwise it is the member inherited under that name, if there is one, which is no
  string and prints as \<^verbatim>\<open>String\<close> prints it, or \<^verbatim>\<open>undefined\<close>, which prints as
  the empty string.
\<close>

definition csv_cell_text :: "world \<Rightarrow> document \<Rightarrow> string \<Rightarrow> string" where
  "csv_cell_text w row field =
     (case map_of row field of
        Some v \<Rightarrow> join_text (to_string w) (csv_cell v)
      | None \<Rightarrow> if field \<in> set object_prototype_names then inherited_text w field else [])"

definition csv_row :: "world \<Rightarrow> string list \<Rightarrow> document \<Rightarrow> string" where
  "csv_row w headers row = join '','' (map (csv_cell_text w row) headers)"

definition csvRows :: "world \<Rightarrow> string list \<Rightarrow> document list \<Rightarrow> string list" where
  "csvRows w headers documents = join '','' headers # map (csv_row w headers) documents"

definition csv_headers :: "(string \<times> string) list" where
  "csv_headers =
     [(''Content-Type'', ''text/csv''),
      (''Content-Disposition'', ''attachment; filename=registrations.csv'')]"

definition adminKey_of :: "request \<Rightarrow> ustring option" where
  "adminKey_of req =
     or_else (map_of (req_headers req) ''x-admin-key'')
       (or_else (map_of (req_headers req) ''X-Admin-Key'') (map_of (req_query req) ''key''))"

text \<open>\<^verbatim>\<open>GET /csv\<close>.\<close>

definition csv :: "env \<Rightarrow> world \<Rightarrow> request \<Rightarrow> store \<Rightarrow> response \<times> store" where
  "csv e w req st =
     (if \<not> validateAdminKey (adminKey_of req) (ADMIN_KEY e)
      then (sendJsonResponse e (JObj [(''error'', JStr ''Invalid admin key'')]) 401, st)
      else
        let st1 = record_op Connect st
        in case connect_fault w of
          Some err \<Rightarrow> (db_error_response e ''Failed to export CSV'' err, st1)
        | None \<Rightarrow>
           (let st2 = record_op FindAll st1
            in case find_fault w of
              Some err \<Rightarrow> (db_error_response e ''Failed to export CSV'' err, st2)
            | None \<Rightarrow>
               (let documents = docs st2;
                    st3 = record_op Close st2
                in case close_fault w of
                  Some err \<Rightarrow> (db_error_response e ''Failed to export CSV'' err, st3)
                | None \<Rightarrow>
                   (case documents of
                      [] \<Rightarrow>
                        (\<lparr>res_status = 200, res_payload = Text [], res_headers = csv_headers\<rparr>,
                         st3)
                    | first # others \<Rightarrow>
                        (let headers = map fst first
                         in (\<lparr>res_status = 200,
                               res_payload = Text (join [CHR 0x0A]
                                 (csvRows w headers documents)),
                               res_headers = csv_headers\<rparr>,
                             st3))))))"

text \<open>\<^verbatim>\<open>req.path || req.url || "/"\<close>.\<close>

definition path_of :: "request \<Rightarrow> string" where
  "path_of req =
     (case or_else (req_path req) (or_else (req_url req) (Some ''/'')) of
        Some p \<Rightarrow> p | None \<Rightarrow> [])"

text \<open>The entry point: the preflight, the route by path and method, and 404.\<close>

definition handler :: "env \<Rightarrow> world \<Rightarrow> request \<Rightarrow> store \<Rightarrow> response \<times> store" where
  "handler e w req st =
     (if req_method req = ''OPTIONS''
      then (\<lparr>res_status = 200, res_payload = Text [], res_headers = cors_headers e\<rparr>, st)
      else
        let path = path_of req
        in if path = ''/health'' \<or> path = ''/''
           then (sendJsonResponse e
                   (JObj [(''status'', JStr ''OK''),
                          (''message'', JStr ''Appwrite function is running''),
                          (''timestamp'', JStr (toISOString w (clock w 0)))])
                   200,
                 st)
           else if path = ''/submit'' \<and> req_method req = ''POST'' then submit e w req st
           else if path = ''/csv'' \<and> req_method req = ''GET'' then csv e w req st
           else (sendJsonResponse e
                   (JObj [(''error'', JStr ''Not found''), (''path'', JStr path),
                          (''method'', JStr (req_method req))])
                   404,
                 st))"

section \<open>The server of \<^verbatim>\<open>src/services/server.ts\<close>\<close>

text \<open>
  The express server takes \<^verbatim>\<open>insertData\<close> and \<^verbatim>\<open>collection_to_csv\<close> from
  \<^verbatim>\<open>services/data_handler\<close>, a module that is not among the sources. Each call is
  recorded in the log of the store.
\<close>

text \<open>
  Modelled from the spec: \<^verbatim>\<open>insertData\<close> of \<^verbatim>\<open>services/data_handler\<close>, which is not
  among the sources. It is steps 4 to 6 of the specification's pipeline (section 4.3) on
  the record it is given: it queries the store for a record with the same
  \<open>roll_number\<close> or the same \<open>email\<close> and fails when there is one, attaches
  \<open>createdAt\<close> (a structured timestamp) and \<open>submittedAt\<close> (ISO-8601 text), and
  persists the record (section 6: all submitted fields, plus \<open>createdAt\<close> and
  \<open>submittedAt\<close>). A failure, of the store or by a duplicate, is a thrown error. The
  result is the store after the call and the error thrown, if any.
\<close>

definition insertData :: "world \<Rightarrow> document \<Rightarrow> store \<Rightarrow> store \<times> js_error option" where
  "insertData w formData st =
     (let st1 = record_op (InsertData formData) st
      in case insertData_fault w of
        Some err \<Rightarrow> (st1, Some err)
      | None \<Rightarrow>
         (case findOne (lookup formData ''roll_number'') (lookup formData ''email'') st1 of
            Some existing \<Rightarrow> (st1, Some (duplicate_error w))
          | None \<Rightarrow>
              (insertOne w
                 (set_prop ''submittedAt'' (JStr (toISOString w (clock w 1)))
                   (set_prop ''createdAt'' (JDate (clock w 0)) formData))
                 st1,
               None)))"

text \<open>\<^verbatim>\<open>collection_to_csv\<close> of the same module is taken as given: the call is
  recorded, and it throws or returns the CSV text the world gives.\<close>

text \<open>
  A parsed query parameter: absent, a string, an array, or a nested object. An element
  of an array is a string, or a value that is no string (an object or an array, which
  the extended query parser builds from brackets in the name). The source casts the
  first element to a string and hands it to \<^verbatim>\<open>Buffer.from\<close>; a value that is no string
  is given here by what \<^verbatim>\<open>Buffer.from\<close> makes of it: the error it throws, or the bytes.
\<close>

datatype qs_item = QItemString ustring | QItemOther "js_error + nat list"

datatype qs_value = QAbsent | QString ustring | QArray "qs_item list" | QNested

text \<open>\<^verbatim>\<open>!providedKey\<close> holds of the empty string; an object or an array is truthy.\<close>

fun item_truthy :: "qs_item \<Rightarrow> bool" where
  "item_truthy (QItemString s) = (s \<noteq> [])"
| "item_truthy (QItemOther b) = True"

fun Buffer_from_item :: "qs_item \<Rightarrow> js_error + nat list" where
  "Buffer_from_item (QItemString s) = Inr (Buffer_from s)"
| "Buffer_from_item (QItemOther b) = b"

text \<open>\<^verbatim>\<open>app.post("/submit")\<close>. Destructuring \<^verbatim>\<open>undefined\<close> or \<^verbatim>\<open>null\<close> throws
  into the handler's \<^verbatim>\<open>catch\<close>, as a failure of \<^verbatim>\<open>insertData\<close> does.\<close>

definition submit_ts :: "env \<Rightarrow> world \<Rightarrow> jsval \<Rightarrow> store \<Rightarrow> response \<times> store" where
  "submit_ts e w body st =
     (if body = JUndefined \<or> body = JNull
      then (\<lparr>res_status = 500,
              res_payload = Json (JObj [(''success'', JBool False),
                (''message'', JStr (error_message (destructure_error w)))]),
              res_headers = []\<rparr>, st)
      else
        let captchaToken = get body ''captchaToken'';
            formData = rest_without ''captchaToken'' body
        in case verifyCaptcha_ts e (siteverify w) captchaToken of
          CaptchaFail err details \<Rightarrow>
            (\<lparr>res_status = 400,
              res_payload = Json (JObj [(''success'', JBool False),
                (''message'', JStr (if err \<noteq> [] then err else ''CAPTCHA verification failed''))]),
              res_headers = []\<rparr>, st)
        | CaptchaOk score \<Rightarrow>
           (case insertData w formData st of
              (st1, Some err) \<Rightarrow>
                (\<lparr>res_status = 500,
                  res_payload = Json (JObj [(''success'', JBool False),
                    (''message'', JStr (error_message err))]),
                  res_headers = []\<rparr>, st1)
            | (st1, None) \<Rightarrow>
                (\<lparr>res_status = 200, res_payload = Text ''Data submitted successfully!'',
                  res_headers = []\<rparr>, st1)))"

text \<open>
  \<^verbatim>\<open>app.get("/to_csv")\<close>: the key of the query is its string, or the first element
  of its array. The two calls of \<^verbatim>\<open>Buffer.from\<close> and the comparison stand outside the
  \<^verbatim>\<open>try\<close>: when \<^verbatim>\<open>Buffer.from\<close> throws, the handler throws, and has sent no
  response; that is the result \<open>Inl\<close>.
\<close>

fun providedKey_of :: "qs_value \<Rightarrow> qs_item option" where
  "providedKey_of (QArray []) = None"
| "providedKey_of (QArray (x # xs)) = Some x"
| "providedKey_of (QString s) = Some (QItemString s)"
| "providedKey_of q = None"

definition to_csv_ts ::
  "env \<Rightarrow> world \<Rightarrow> qs_value \<Rightarrow> store \<Rightarrow> (js_error + response) \<times> store" where
  "to_csv_ts e w rawKey st =
     (case (ADMIN_KEY e, providedKey_of rawKey) of
        (Some adminKey, Some providedKey) \<Rightarrow>
          if adminKey = [] \<or> \<not> item_truthy providedKey
          then (Inr \<lparr>res_status = 403, res_payload = Text ''Forbidden: Admin key required'',
                  res_headers = []\<rparr>, st)
          else
            let adminBuf = Buffer_from adminKey
            in case Buffer_from_item providedKey of
              Inl err \<Rightarrow> (Inl err, st)
            | Inr providedBuf \<Rightarrow>
               (let keysMatch = fst (keysMatch_timed adminBuf providedBuf)
                in if \<not> keysMatch
                   then (Inr \<lparr>res_status = 403,
                           res_payload = Text ''Forbidden: Invalid admin key'',
                           res_headers = []\<rparr>, st)
                   else
                     let st1 = record_op CollectionToCsv st
                     in (case collection_to_csv_result w of
                           Inr csv_text \<Rightarrow>
                             (Inr \<lparr>res_status = 200, res_payload = Text csv_text,
                               res_headers =
                                 [(''Content-Type'', ''text/csv''),
                                  (''Content-Disposition'',
                                   ''attachment; filename='' @ [CHR 0x22] @ ''data.csv''
                                     @ [CHR 0x22])]\<rparr>,
                              st1)
                         | Inl err \<Rightarrow>
                             (Inr \<lparr>res_status = 500,
                               res_payload = Json (JObj [(''success'', JBool False),
                                 (''message'', JStr ''Failed to export CSV'')]),
                               res_headers = []\<rparr>, st1)))
      | _ \<Rightarrow>
          (Inr \<lparr>res_status = 403, res_payload = Text ''Forbidden: Admin key required'',
            res_headers = []\<rparr>, st))"

section \<open>Required and optional fields, and example records\<close>

text \<open>A record with a malformed email and no \<open>about\<close>.\<close>

definition malformed_email_no_about :: jsval where
  "malformed_email_no_about =
     JObj [(''captchaToken'', JStr ''tok''), (''name'', JStr ''Ann''),
           (''roll_number'', JNum (Finite 7)), (''gender'', JStr ''F''),
           (''email'', JStr ''not-an-email'')]"

text \<open>The required fields in the order of their checks, and the rule of each.\<close>

definition required_fields :: "string list" where
  "required_fields = [''captchaToken'', ''name'', ''roll_number'', ''gender'', ''email'', ''about'']"

definition required_rules :: "rule list" where
  "required_rules =
     [rule_token, rule_name, rule_roll_number, rule_gender, rule_email_present, rule_about]"

text \<open>The specification's "every required field present and well-typed": the body is
  a record, each required field is there, not empty, of its type, the gender is M or F
  and the email matches the pattern.\<close>

definition required_present_well_typed :: "jsval \<Rightarrow> bool" where
  "required_present_well_typed body =
     (typeof body = ''object'' \<and> body \<noteq> JNull
      \<and> truthy (get body ''captchaToken'') \<and> typeof (get body ''captchaToken'') = ''string''
      \<and> truthy (get body ''name'') \<and> typeof (get body ''name'') = ''string''
      \<and> truthy (get body ''roll_number'') \<and> typeof (get body ''roll_number'') = ''number''
      \<and> (get body ''gender'' = JStr ''M'' \<or> get body ''gender'' = JStr ''F'')
      \<and> truthy (get body ''email'') \<and> typeof (get body ''email'') = ''string''
      \<and> emailRegex_test (get body ''email'')
      \<and> truthy (get body ''about'') \<and> typeof (get body ''about'') = ''string'')"

text \<open>What the validator asks of the optional fields: each is absent or a string, and
  the referrer email is absent, empty or matches the pattern.\<close>

definition optional_fields_ok :: "jsval \<Rightarrow> bool" where
  "optional_fields_ok body =
     ((\<forall>f \<in> set optionalStringFields.
          get body f = JUndefined \<or> typeof (get body f) = ''string'')
      \<and> (get body ''referrer_email'' = JUndefined \<or> get body ''referrer_email'' = JStr []
          \<or> emailRegex_test (get body ''referrer_email'')))"

text \<open>A complete record with a given email.\<close>

definition valid_record :: "string \<Rightarrow> document" where
  "valid_record email =
     [(''captchaToken'', JStr ''tok''), (''name'', JStr ''Ann''),
      (''roll_number'', JNum (Finite 7)), (''gender'', JStr ''F''),
      (''email'', JStr email), (''about'', JStr ''hi'')]"

text \<open>A configuration, a world where every call succeeds, and requests, to run
  the routes on.\<close>

definition accepting_world :: world where
  "accepting_world =
     \<lparr>siteverify = (\<lambda>secret token. Reply True None JUndefined),
      clock = (\<lambda>n. 1000 + n),
      toISOString = (\<lambda>t. ''2025-09-01T10:00:00.000Z''),
      new_id = 41,
      to_string = (\<lambda>v. ''65f0c0ffee''),
      connect_fault = None,
      findOne_fault = None,
      insertOne_fault = None,
      find_fault = None,
      close_fault = None,
      insertData_fault = None,
      duplicate_error = Error ''Error'' ''Duplicate registration'',
      destructure_error = Error ''TypeError'' ''Cannot destructure property'',
      inherited_text = (\<lambda>name. ''function () { [native code] }''),
      collection_to_csv_result = Inr []\<rparr>"

definition test_env :: env where
  "test_env =
     \<lparr>FRONTEND_URL = None, ADMIN_KEY = Some (ascii ''s3cret''),
      GOOGLE_CAPTCHA_SECRET_KEY = Some ''captcha-secret'', NODE_ENV = None\<rparr>"

definition empty_store :: store where
  "empty_store = \<lparr>docs = [], ops = []\<rparr>"

definition csv_request :: "ustring \<Rightarrow> request" where
  "csv_request key =
     \<lparr>req_method = ''GET'', req_path = Some ''/csv'', req_url = None, req_headers = [],
      req_query = [(''key'', key)], req_body = JUndefined\<rparr>"

definition submit_request :: "jsval \<Rightarrow> request" where
  "submit_request body =
     \<lparr>req_method = ''POST'', req_path = Some ''/submit'', req_url = None, req_headers = [],
      req_query = [], req_body = body\<rparr>"

text \<open>A world whose abuse check scores every token 0.3.\<close>

definition low_score_world :: world where
  "low_score_world =
     accepting_world\<lparr>siteverify := (\<lambda>secret token. Reply True (Some (Finite (3 / 10))) JUndefined)\<rparr>"

text \<open>A store of two records, and the document saved for the complete record of
  \<open>ann@x.com\<close>.\<close>

definition two_registrations :: store where
  "two_registrations =
     \<lparr>docs = [[(''name'', JStr ''Ann''), (''roll_number'', JNum (Finite 7)),
               (''about'', JStr (''say '' @ [CHR 0x22] @ ''hi'' @ [CHR 0x22]))],
              [(''name'', JStr ''Bob, Jr''), (''roll_number'', JNull)]],
      ops = []\<rparr>"

definition ann_document :: document where
  "ann_document =
     [(''name'', JStr ''Ann''), (''roll_number'', JNum (Finite 7)), (''gender'', JStr ''F''),
      (''email'', JStr ''ann@x.com''), (''about'', JStr ''hi''),
      (''createdAt'', JDate 1000), (''submittedAt'', JStr ''2025-09-01T10:00:00.000Z'')]"

section \<open>What the matcher decides\<close>

lemma Cons_in_conc:
  "(\<exists>u v. c # w = u @ v \<and> u \<in> A \<and> v \<in> B) \<longleftrightarrow>
     ([] \<in> A \<and> c # w \<in> B) \<or> (\<exists>u v. w = u @ v \<and> c # u \<in> A \<and> v \<in> B)"
  (is "?L \<longleftrightarrow> ?R")
proof
  assume ?L
  then obtain u v where uv: "c # w = u @ v" "u \<in> A" "v \<in> B"
    by blast
  show ?R
  proof (cases u)
    case Nil
    with uv show ?thesis by simp
  next
    case (Cons a u')
    with uv have "w = u' @ v" "c # u' \<in> A"
      by simp_all
    with uv(3) show ?thesis by blast
  qed
next
  assume ?R
  then show ?L
  proof
    assume "[] \<in> A \<and> c # w \<in> B"
    then have "c # w = [] @ (c # w) \<and> [] \<in> A \<and> c # w \<in> B"
      by simp
    then show ?L by blast
  next
    assume "\<exists>u v. w = u @ v \<and> c # u \<in> A \<and> v \<in> B"
    then obtain u v where "w = u @ v" "c # u \<in> A" "v \<in> B"
      by blast
    then have "c # w = (c # u) @ v \<and> c # u \<in> A \<and> v \<in> B"
      by simp
    then show ?L by blast
  qed
qed


lemma nullable_lang: "nullable r \<longleftrightarrow> [] \<in> lang r"
  by (induction r) (auto intro: star.intros)

lemma star_Cons:
  "c # w \<in> star A \<longleftrightarrow> (\<exists>u v. w = u @ v \<and> c # u \<in> A \<and> v \<in> star A)"
proof
  assume "c # w \<in> star A"
  then show "\<exists>u v. w = u @ v \<and> c # u \<in> A \<and> v \<in> star A"
  proof (induction "c # w" rule: star.induct)
    case (star_app u v)
    then show ?case
      by (cases u) auto
  qed
next
  assume "\<exists>u v. w = u @ v \<and> c # u \<in> A \<and> v \<in> star A"
  then obtain u v where "w = u @ v" "c # u \<in> A" "v \<in> star A"
    by blast
  then show "c # w \<in> star A"
    using star.star_app [of "c # u" A v] by simp
qed

lemma lang_deriv: "w \<in> lang (deriv c r) \<longleftrightarrow> c # w \<in> lang r"
proof (induction r arbitrary: w)
  case (Seq r s)
  have "c # w \<in> lang (Seq r s) \<longleftrightarrow>
          ([] \<in> lang r \<and> c # w \<in> lang s)
          \<or> (\<exists>u v. w = u @ v \<and> c # u \<in> lang r \<and> v \<in> lang s)"
    using Cons_in_conc [of c w "lang r" "lang s"] by simp
  also have "\<dots> \<longleftrightarrow>
          (nullable r \<and> w \<in> lang (deriv c s))
          \<or> (\<exists>u v. w = u @ v \<and> u \<in> lang (deriv c r) \<and> v \<in> lang s)"
    by (simp add: Seq nullable_lang)
  also have "\<dots> \<longleftrightarrow> w \<in> lang (deriv c (Seq r s))"
    by auto
  finally show ?case by simp
next
  case (Star r)
  then show ?case
    by (auto simp: star_Cons)
qed auto

lemma regex_test_lang: "regex_test r w \<longleftrightarrow> w \<in> lang r"
  by (induction w arbitrary: r) (simp_all add: nullable_lang lang_deriv)

lemma star_atoms: "w \<in> star {[c] |c. P c} \<longleftrightarrow> (\<forall>c \<in> set w. P c)"
proof
  assume "w \<in> star {[c] |c. P c}"
  then show "\<forall>c \<in> set w. P c"
    by (induction rule: star.induct) auto
next
  assume "\<forall>c \<in> set w. P c"
  then show "w \<in> star {[c] |c. P c}"
  proof (induction w)
    case Nil
    show ?case by (rule star.star_nil)
  next
    case (Cons a w)
    then have "[a] \<in> {[c] |c. P c}" "w \<in> star {[c] |c. P c}"
      by auto
    then have "[a] @ w \<in> star {[c] |c. P c}"
      by (rule star.star_app)
    then show ?case by simp
  qed
qed

lemma lang_Plus_Atom: "w \<in> lang (Plus (Atom P)) \<longleftrightarrow> w \<noteq> [] \<and> (\<forall>c \<in> set w. P c)"
proof (cases w)
  case Nil
  then show ?thesis
    by (simp add: Plus_def)
next
  case (Cons a v)
  have "a # v \<in> lang (Plus (Atom P)) \<longleftrightarrow>
          (\<exists>u v'. a # v = u @ v' \<and> u \<in> lang (Atom P) \<and> v' \<in> star (lang (Atom P)))"
    by (simp add: Plus_def)
  also have "\<dots> \<longleftrightarrow> (\<exists>u v'. v = u @ v' \<and> a # u \<in> lang (Atom P) \<and> v' \<in> star (lang (Atom P)))"
    using Cons_in_conc [of a v "lang (Atom P)" "star (lang (Atom P))"] by simp
  also have "\<dots> \<longleftrightarrow> P a \<and> v \<in> star (lang (Atom P))"
    by auto
  also have "\<dots> \<longleftrightarrow> P a \<and> (\<forall>c \<in> set v. P c)"
    using star_atoms [of v P] by simp
  finally show ?thesis
    using Cons by simp
qed

lemma lang_Seq: "w \<in> lang (Seq r s) \<longleftrightarrow> (\<exists>u v. w = u @ v \<and> u \<in> lang r \<and> v \<in> lang s)"
  by auto

lemma lang_Atom_eq: "w \<in> lang (Atom (\<lambda>c. c = a)) \<longleftrightarrow> w = [a]"
  by auto

lemma lang_Seq_Plus_Atom:
  "w \<in> lang (Seq (Plus (Atom P)) r) \<longleftrightarrow>
     (\<exists>u v. w = u @ v \<and> (u \<noteq> [] \<and> (\<forall>c \<in> set u. P c)) \<and> v \<in> lang r)"
  unfolding lang_Seq lang_Plus_Atom by (rule refl)

lemma lang_Seq_Atom_eq:
  "w \<in> lang (Seq (Atom (\<lambda>c. c = a)) r) \<longleftrightarrow> (\<exists>v. w = a # v \<and> v \<in> lang r)"
  by auto

lemma Seq_Plus_AtomE:
  assumes "w \<in> lang (Seq (Plus (Atom P)) r)"
  obtains u v where "w = u @ v" "u \<noteq> []" "\<forall>c \<in> set u. P c" "v \<in> lang r"
  using assms unfolding lang_Seq_Plus_Atom by blast

lemma Seq_Plus_AtomI:
  "u \<noteq> [] \<Longrightarrow> \<forall>c \<in> set u. P c \<Longrightarrow> v \<in> lang r \<Longrightarrow> u @ v \<in> lang (Seq (Plus (Atom P)) r)"
  unfolding lang_Seq_Plus_Atom by blast

lemma Seq_Atom_eqE:
  assumes "w \<in> lang (Seq (Atom (\<lambda>c. c = a)) r)"
  obtains v where "w = a # v" "v \<in> lang r"
  using assms unfolding lang_Seq_Atom_eq by blast

lemma Seq_Atom_eqI:
  "v \<in> lang r \<Longrightarrow> a # v \<in> lang (Seq (Atom (\<lambda>c. c = a)) r)"
  unfolding lang_Seq_Atom_eq by blast

lemma emailRegex_shape: "regex_test emailRegex s \<longleftrightarrow> email_shape s"
proof
  assume "regex_test emailRegex s"
  then have "s \<in> lang emailRegex"
    by (simp only: regex_test_lang)
  then have "s \<in> lang (Seq (Plus (Atom not_space_at))
       (Seq (Atom (\<lambda>c. c = CHR ''@''))
         (Seq (Plus (Atom not_space_at))
           (Seq (Atom (\<lambda>c. c = CHR ''.'')) (Plus (Atom not_space_at))))))"
    by (simp only: emailRegex_def)
  then obtain l v1 where l: "s = l @ v1" "l \<noteq> []" "\<forall>c \<in> set l. not_space_at c"
    and m1: "v1 \<in> lang (Seq (Atom (\<lambda>c. c = CHR ''@''))
         (Seq (Plus (Atom not_space_at))
           (Seq (Atom (\<lambda>c. c = CHR ''.'')) (Plus (Atom not_space_at)))))"
    by (rule Seq_Plus_AtomE)
  from m1 obtain v2 where v1: "v1 = CHR ''@'' # v2"
    and m2: "v2 \<in> lang (Seq (Plus (Atom not_space_at))
           (Seq (Atom (\<lambda>c. c = CHR ''.'')) (Plus (Atom not_space_at))))"
    by (rule Seq_Atom_eqE)
  from m2 obtain d v3 where d: "v2 = d @ v3" "d \<noteq> []" "\<forall>c \<in> set d. not_space_at c"
    and m3: "v3 \<in> lang (Seq (Atom (\<lambda>c. c = CHR ''.'')) (Plus (Atom not_space_at)))"
    by (rule Seq_Plus_AtomE)
  from m3 obtain t where v3: "v3 = CHR ''.'' # t" and m4: "t \<in> lang (Plus (Atom not_space_at))"
    by (rule Seq_Atom_eqE)
  from m4 [unfolded lang_Plus_Atom] have t: "t \<noteq> []" "\<forall>c \<in> set t. not_space_at c"
    by (rule conjunct1, rule conjunct2)
  have "s = l @ ''@'' @ d @ ''.'' @ t"
    using l(1) v1 d(1) v3 by simp
  moreover have "\<forall>c \<in> set (l @ d @ t). \<not> is_space c \<and> c \<noteq> CHR ''@''"
    using l(3) d(3) t(2) by (simp add: not_space_at_def ball_Un)
  ultimately have "s = l @ ''@'' @ d @ ''.'' @ t \<and> l \<noteq> [] \<and> d \<noteq> [] \<and> t \<noteq> []
        \<and> (\<forall>c \<in> set (l @ d @ t). \<not> is_space c \<and> c \<noteq> CHR ''@'')"
    using l(2) d(2) t(1) by (intro conjI)
  then show "email_shape s"
    unfolding email_shape_def by (intro exI)
next
  assume "email_shape s"
  then obtain l d t where s: "s = l @ ''@'' @ d @ ''.'' @ t"
    and ne: "l \<noteq> []" "d \<noteq> []" "t \<noteq> []"
    and cs: "\<forall>c \<in> set (l @ d @ t). \<not> is_space c \<and> c \<noteq> CHR ''@''"
    unfolding email_shape_def by (elim exE conjE)
  from cs have P: "\<forall>c \<in> set l. not_space_at c" "\<forall>c \<in> set d. not_space_at c"
    "\<forall>c \<in> set t. not_space_at c"
    by (simp_all add: not_space_at_def ball_Un)
  have "t \<in> lang (Plus (Atom not_space_at))"
    using ne(3) P(3) by (simp only: lang_Plus_Atom simp_thms)
  then have "CHR ''.'' # t \<in> lang (Seq (Atom (\<lambda>c. c = CHR ''.'')) (Plus (Atom not_space_at)))"
    by (rule Seq_Atom_eqI)
  with ne(2) P(2) have "d @ CHR ''.'' # t \<in> lang (Seq (Plus (Atom not_space_at))
           (Seq (Atom (\<lambda>c. c = CHR ''.'')) (Plus (Atom not_space_at))))"
    by (rule Seq_Plus_AtomI)
  then have "CHR ''@'' # d @ CHR ''.'' # t \<in> lang (Seq (Atom (\<lambda>c. c = CHR ''@''))
         (Seq (Plus (Atom not_space_at))
           (Seq (Atom (\<lambda>c. c = CHR ''.'')) (Plus (Atom not_space_at)))))"
    by (rule Seq_Atom_eqI)
  with ne(1) P(1) have "l @ CHR ''@'' # d @ CHR ''.'' # t \<in> lang (Seq (Plus (Atom not_space_at))
       (Seq (Atom (\<lambda>c. c = CHR ''@''))
         (Seq (Plus (Atom not_space_at))
           (Seq (Atom (\<lambda>c. c = CHR ''.'')) (Plus (Atom not_space_at))))))"
    by (rule Seq_Plus_AtomI)
  then have "l @ CHR ''@'' # d @ CHR ''.'' # t \<in> lang emailRegex"
    by (simp only: emailRegex_def)
  moreover have "s = l @ CHR ''@'' # d @ CHR ''.'' # t"
    using s by simp
  ultimately show "regex_test emailRegex s"
    by (simp only: regex_test_lang)
qed

section \<open>Properties of the validator\<close>

lemma get_JObj_Cons:
  "get (JObj ((k, v) # kvs)) k' = (if k = k' then v else get (JObj kvs) k')"
  by (simp add: lookup_def)

lemma get_JObj_Nil: "get (JObj []) k = JUndefined"
  by (simp add: lookup_def)

lemma first_failure_append:
  "first_failure (rs @ rs') body =
     (case first_failure rs body of Invalid e \<Rightarrow> Invalid e | Valid \<Rightarrow> first_failure rs' body)"
  by (induction rs body rule: first_failure.induct) simp_all

lemma first_failure_optional:
  "first_failure (map rule_optional fs) body =
     (case check_optional body fs of Some e \<Rightarrow> Invalid e | None \<Rightarrow> Valid)"
  by (induction fs) (simp_all add: rule_optional_def)

lemma isValidFormData_rules: "isValidFormData body = first_failure code_order_rules body"
  unfolding code_order_rules_def first_failure_append first_failure_optional
  by (simp add: isValidFormData_def rule_object_def rule_token_def rule_name_def
      rule_roll_number_def rule_gender_def rule_email_present_def rule_about_def
      rule_email_pattern_def rule_referrer_email_def split: option.splits)

lemma first_failure_first:
  "i < length rs \<Longrightarrow> fst (rs ! i) body \<Longrightarrow> \<forall>j<i. \<not> fst (rs ! j) body \<Longrightarrow>
     first_failure rs body = Invalid (snd (rs ! i))"
proof (induction rs body arbitrary: i rule: first_failure.induct)
  case (1 body)
  then show ?case by simp
next
  case (2 fails reason rules body)
  show ?case
  proof (cases i)
    case 0
    with 2 show ?thesis by simp
  next
    case (Suc k)
    with 2(3,4) have "\<not> fails body"
      by auto
    moreover have "first_failure rules body = Invalid (snd (rules ! k))"
    proof (rule 2(1))
      show "\<not> fails body" by fact
      show "k < length rules" using 2(2) Suc by simp
      show "fst (rules ! k) body" using 2(3) Suc by simp
      show "\<forall>j<k. \<not> fst (rules ! j) body"
        using 2(4) Suc by auto
    qed
    ultimately show ?thesis
      using Suc by simp
  qed
qed

lemma first_failure_Valid:
  "first_failure rs body = Valid \<longleftrightarrow> (\<forall>r \<in> set rs. \<not> fst r body)"
  by (induction rs body rule: first_failure.induct) auto

lemma code_order_reasons_distinct: "distinct (map snd code_order_rules)"
  by (simp add: code_order_rules_def rule_object_def rule_token_def rule_name_def
      rule_roll_number_def rule_gender_def rule_email_present_def rule_about_def
      rule_email_pattern_def rule_referrer_email_def rule_optional_def optionalStringFields_def
      gender_error_def)

text \<open>
  Claim C1, as amended. The validator returns the reason of the first rule that fails
  in the order of the code (object check, token, name, roll number, gender, email
  presence, about, email pattern, the optional fields' types, referrer email pattern),
  and accepts when none fails; the reasons are pairwise distinct, so the reason of a
  later rule is never returned while an earlier rule fails.
\<close>

theorem validator_first_failure_wins:
  "isValidFormData body = first_failure code_order_rules body
   \<and> (\<forall>i < length code_order_rules.
        fst (code_order_rules ! i) body \<and> (\<forall>j<i. \<not> fst (code_order_rules ! j) body)
        \<longrightarrow> isValidFormData body = Invalid (snd (code_order_rules ! i)))
   \<and> (isValidFormData body = Valid \<longleftrightarrow> (\<forall>r \<in> set code_order_rules. \<not> fst r body))
   \<and> distinct (map snd code_order_rules)"
  using first_failure_first [of _ code_order_rules body]
  by (simp add: isValidFormData_rules first_failure_Valid code_order_reasons_distinct)

lemmas rule_defs = rule_object_def rule_token_def rule_name_def
      rule_roll_number_def rule_gender_def rule_email_present_def rule_about_def
      rule_email_pattern_def rule_referrer_email_def rule_optional_def

lemmas regex_eval = emailRegex_def Plus_def not_space_at_def is_space_def

text \<open>A record with a malformed email and no \<open>about\<close>: the seventh rule, the one
  of \<open>about\<close>, is the first to fail.\<close>

theorem validator_first_failure_wins_witness:
  "isValidFormData malformed_email_no_about = Invalid ''About is required and must be a string''
   \<and> snd (code_order_rules ! 6) = ''About is required and must be a string''"
  using validator_first_failure_wins [of malformed_email_no_about]
  by (simp add: malformed_email_no_about_def code_order_rules_def rule_defs lookup_def)

text \<open>
  Claim C1 as stated puts the email pattern before \<open>about\<close>. On that record the
  rules in the stated order give the malformed-email reason, and the validator gives
  the reason of \<open>about\<close>.
\<close>

theorem validator_spec_order_counterexample:
  "isValidFormData malformed_email_no_about = Invalid ''About is required and must be a string''
   \<and> first_failure spec_order_rules malformed_email_no_about = Invalid ''Invalid email format''
   \<and> isValidFormData malformed_email_no_about
       \<noteq> first_failure spec_order_rules malformed_email_no_about"
  by (simp add: malformed_email_no_about_def isValidFormData_def spec_order_rules_def rule_defs
      lookup_def regex_eval)

lemma emailRegex_test_shape: "emailRegex_test v \<longleftrightarrow> (\<exists>s. v = JStr s \<and> email_shape s)"
  by (cases v) (simp_all add: emailRegex_shape)

lemma code_order_rules_split:
  "code_order_rules =
     rule_object # required_rules
       @ (rule_email_pattern # map rule_optional optionalStringFields @ [rule_referrer_email])"
  by (simp add: code_order_rules_def required_rules_def)

lemma missing_fails:
  assumes "i < length required_fields" "get body (required_fields ! i) = JUndefined"
  shows "fst (required_rules ! i) body"
proof -
  from assms(1) have "i = 0 \<or> i = 1 \<or> i = 2 \<or> i = 3 \<or> i = 4 \<or> i = 5"
    by (auto simp: required_fields_def)
  with assms(2) show ?thesis
    by (auto simp: required_fields_def required_rules_def rule_defs)
qed

lemma check_optional_None:
  "check_optional body fs = None \<longleftrightarrow>
     (\<forall>f \<in> set fs. get body f = JUndefined \<or> typeof (get body f) = ''string'')"
  by (induction fs) auto

lemma typeof_string: "typeof v = ''string'' \<longleftrightarrow> (\<exists>s. v = JStr s)"
  by (cases v) simp_all

lemma referrer_rule_passes:
  assumes "get body ''referrer_email'' = JUndefined \<or> typeof (get body ''referrer_email'') = ''string''"
  shows "\<not> fst rule_referrer_email body \<longleftrightarrow>
     get body ''referrer_email'' = JUndefined \<or> get body ''referrer_email'' = JStr []
       \<or> emailRegex_test (get body ''referrer_email'')"
  using assms by (auto simp: typeof_string rule_referrer_email_def)

lemma optional_rules_pass:
  "(\<forall>r \<in> set (map rule_optional fs). \<not> fst r body) \<longleftrightarrow>
     (\<forall>f \<in> set fs. get body f = JUndefined \<or> typeof (get body f) = ''string'')"
  by (simp add: rule_optional_def)

lemma required_rules_pass:
  "typeof body = ''object'' \<and> body \<noteq> JNull \<and> (\<forall>r \<in> set required_rules. \<not> fst r body)
     \<and> \<not> fst rule_email_pattern body
   \<longleftrightarrow> required_present_well_typed body"
  unfolding required_present_well_typed_def required_rules_def
  by (auto simp: rule_defs)

lemma isValidFormData_Valid:
  "isValidFormData body = Valid \<longleftrightarrow> required_present_well_typed body \<and> optional_fields_ok body"
proof -
  have in_opt: "''referrer_email'' \<in> set optionalStringFields"
    by (simp add: optionalStringFields_def)
  have "isValidFormData body = Valid \<longleftrightarrow>
      \<not> fst rule_object body \<and> (\<forall>r \<in> set required_rules. \<not> fst r body)
      \<and> \<not> fst rule_email_pattern body
      \<and> (\<forall>r \<in> set (map rule_optional optionalStringFields). \<not> fst r body)
      \<and> \<not> fst rule_referrer_email body"
    unfolding isValidFormData_rules first_failure_Valid code_order_rules_split
    by (simp only: set_simps set_append ball_Un ball_simps) blast
  also have "\<dots> \<longleftrightarrow> required_present_well_typed body
      \<and> (\<forall>f \<in> set optionalStringFields.
            get body f = JUndefined \<or> typeof (get body f) = ''string'')
      \<and> \<not> fst rule_referrer_email body"
    unfolding optional_rules_pass required_rules_pass [symmetric]
    by (simp add: rule_object_def)
  also have "\<dots> \<longleftrightarrow> required_present_well_typed body \<and> optional_fields_ok body"
    unfolding optional_fields_ok_def using referrer_rule_passes [of body] in_opt by blast
  finally show ?thesis .
qed

lemma first_required_failure:
  assumes obj: "typeof body = ''object''" "body \<noteq> JNull"
    and j: "j < length required_rules" "fst (required_rules ! j) body"
      "\<forall>k<j. \<not> fst (required_rules ! k) body"
  shows "isValidFormData body = Invalid (snd (required_rules ! j))"
proof -
  have len: "Suc j < length code_order_rules"
    using j(1) by (simp add: code_order_rules_split)
  have nth: "code_order_rules ! Suc k = required_rules ! k" if "k < length required_rules" for k
    using that by (simp add: code_order_rules_split nth_append)
  have "fst (code_order_rules ! Suc j) body"
    using j(1,2) by (simp add: nth)
  moreover have "\<forall>m<Suc j. \<not> fst (code_order_rules ! m) body"
  proof (intro allI impI)
    fix m assume m: "m < Suc j"
    show "\<not> fst (code_order_rules ! m) body"
    proof (cases m)
      case 0
      then show ?thesis
        using obj by (simp add: code_order_rules_split rule_object_def)
    next
      case (Suc k)
      with m j(1) have "k < j" "k < length required_rules"
        by simp_all
      with j(3) Suc show ?thesis
        by (simp add: nth)
    qed
  qed
  ultimately have "first_failure code_order_rules body = Invalid (snd (code_order_rules ! Suc j))"
    using len by (intro first_failure_first)
  then show ?thesis
    using j(1) by (simp add: isValidFormData_rules nth)
qed

text \<open>
  Claim C2, as amended. When a required field of a record is missing, the validator
  rejects with the reason of the first required field, in the order token, name, roll
  number, gender, email, about, whose check fails: the missing field itself when the
  fields before it pass. The validator accepts exactly when every required field
  passes its check, the email matches the pattern, every optional field that is present
  is a string, and the referrer email is absent, empty or matches the pattern.
\<close>

theorem validator_required_fields:
  "(typeof body = ''object'' \<and> body \<noteq> JNull \<and> i < length required_fields
      \<and> get body (required_fields ! i) = JUndefined
    \<longrightarrow> (\<exists>j\<le>i. isValidFormData body = Invalid (snd (required_rules ! j))
           \<and> fst (required_rules ! j) body \<and> (\<forall>k<j. \<not> fst (required_rules ! k) body)))
   \<and> (isValidFormData body = Valid
        \<longleftrightarrow> required_present_well_typed body \<and> optional_fields_ok body)"
proof (intro conjI impI)
  assume a: "typeof body = ''object'' \<and> body \<noteq> JNull \<and> i < length required_fields
      \<and> get body (required_fields ! i) = JUndefined"
  define j where "j = (LEAST k. fst (required_rules ! k) body)"
  have fails_i: "fst (required_rules ! i) body"
    using a by (intro missing_fails) simp_all
  then have fails_j: "fst (required_rules ! j) body"
    unfolding j_def by (rule LeastI)
  have le: "j \<le> i"
    unfolding j_def using fails_i by (rule Least_le)
  have before: "\<forall>k<j. \<not> fst (required_rules ! k) body"
    unfolding j_def using not_less_Least by blast
  have "j < length required_rules"
    using le a by (simp add: required_fields_def required_rules_def)
  with a fails_j before have "isValidFormData body = Invalid (snd (required_rules ! j))"
    by (intro first_required_failure) simp_all
  with le fails_j before
  show "\<exists>j\<le>i. isValidFormData body = Invalid (snd (required_rules ! j))
           \<and> fst (required_rules ! j) body \<and> (\<forall>k<j. \<not> fst (required_rules ! k) body)"
    by blast
next
  show "isValidFormData body = Valid
        \<longleftrightarrow> required_present_well_typed body \<and> optional_fields_ok body"
    by (rule isValidFormData_Valid)
qed

lemma valid_record_well_typed: "required_present_well_typed (JObj (valid_record ''ann@x.com'' @ extra))"
  by (simp add: required_present_well_typed_def valid_record_def lookup_def regex_eval)

text \<open>The complete record is accepted; without its last field, \<open>about\<close>, it is
  rejected with the reason of \<open>about\<close>.\<close>

theorem validator_required_fields_witness:
  "isValidFormData (JObj (valid_record ''ann@x.com'')) = Valid
   \<and> (\<exists>j\<le>5. isValidFormData (JObj (butlast (valid_record ''ann@x.com'')))
          = Invalid (snd (required_rules ! j)))
   \<and> get (JObj (butlast (valid_record ''ann@x.com''))) (required_fields ! 5) = JUndefined
   \<and> isValidFormData (JObj (butlast (valid_record ''ann@x.com'')))
       = Invalid ''About is required and must be a string''"
proof -
  have "isValidFormData (JObj (butlast (valid_record ''ann@x.com'')))
       = Invalid ''About is required and must be a string''"
    by (simp add: isValidFormData_def valid_record_def lookup_def)
  moreover have "optional_fields_ok (JObj (valid_record ''ann@x.com''))"
    by (simp add: optional_fields_ok_def valid_record_def lookup_def optionalStringFields_def)
  moreover have "get (JObj (butlast (valid_record ''ann@x.com''))) (required_fields ! 5) = JUndefined"
    by (simp add: valid_record_def lookup_def required_fields_def)
  ultimately show ?thesis
    using validator_required_fields [of "JObj (valid_record ''ann@x.com'')" 0]
      validator_required_fields [of "JObj (butlast (valid_record ''ann@x.com''))" 5]
      valid_record_well_typed [of "[]"]
    by (auto simp: required_fields_def)
qed

text \<open>
  Claim C2 as stated fails twice. A record whose required fields are all present and
  well-typed is rejected for an optional field that is a number; and a record without
  \<open>about\<close> whose gender is neither M nor F is rejected with the reason of the gender,
  not one that names \<open>about\<close>.
\<close>

theorem validator_required_fields_counterexample:
  "required_present_well_typed (JObj (valid_record ''ann@x.com'' @ [(''github_link'', JNum (Finite 5))]))
   \<and> isValidFormData (JObj (valid_record ''ann@x.com'' @ [(''github_link'', JNum (Finite 5))]))
       = Invalid ''github_link must be a string if provided''
   \<and> get (JObj [(''captchaToken'', JStr ''tok''), (''name'', JStr ''Ann''),
          (''roll_number'', JNum (Finite 7)), (''gender'', JStr ''X''),
          (''email'', JStr ''ann@x.com'')]) ''about'' = JUndefined
   \<and> isValidFormData (JObj [(''captchaToken'', JStr ''tok''), (''name'', JStr ''Ann''),
          (''roll_number'', JNum (Finite 7)), (''gender'', JStr ''X''),
          (''email'', JStr ''ann@x.com'')]) = Invalid gender_error"
  by (simp add: valid_record_well_typed)
     (simp add: isValidFormData_def valid_record_def lookup_def regex_eval optionalStringFields_def)

lemma check_optional_referrer:
  assumes "get body ''referrer_email'' \<noteq> JUndefined"
    "typeof (get body ''referrer_email'') \<noteq> ''string''"
  shows "check_optional body optionalStringFields \<noteq> None"
  using assms by (simp add: check_optional_None optionalStringFields_def)

text \<open>
  Claim C3, as amended. A record whose email is not a string of the shape
  \<open>local@domain.tld\<close> is rejected, and so is a record whose referrer email is present,
  is not the empty string and is not of that shape. With the other required fields
  valid, the email \<open>a@b.co\<close> is accepted and \<open>not-an-email\<close> is rejected as malformed.
\<close>

theorem validator_email_pattern:
  "(\<not> (\<exists>s. get body ''email'' = JStr s \<and> email_shape s) \<longrightarrow> isValidFormData body \<noteq> Valid)
   \<and> (get body ''referrer_email'' \<noteq> JUndefined \<and> get body ''referrer_email'' \<noteq> JStr []
        \<and> \<not> (\<exists>s. get body ''referrer_email'' = JStr s \<and> email_shape s)
      \<longrightarrow> isValidFormData body \<noteq> Valid)
   \<and> isValidFormData (JObj (valid_record ''a@b.co'')) = Valid
   \<and> isValidFormData (JObj (valid_record ''not-an-email'')) = Invalid ''Invalid email format''"
proof (intro conjI impI)
  assume "\<not> (\<exists>s. get body ''email'' = JStr s \<and> email_shape s)"
  then have "\<not> emailRegex_test (get body ''email'')"
    by (simp add: emailRegex_test_shape)
  then show "isValidFormData body \<noteq> Valid"
    by (simp add: isValidFormData_Valid required_present_well_typed_def)
next
  assume a: "get body ''referrer_email'' \<noteq> JUndefined \<and> get body ''referrer_email'' \<noteq> JStr []
        \<and> \<not> (\<exists>s. get body ''referrer_email'' = JStr s \<and> email_shape s)"
  then have "\<not> emailRegex_test (get body ''referrer_email'')"
    by (simp add: emailRegex_test_shape)
  with a have "\<not> optional_fields_ok body"
    by (simp add: optional_fields_ok_def)
  then show "isValidFormData body \<noteq> Valid"
    by (simp add: isValidFormData_Valid)
next
  show "isValidFormData (JObj (valid_record ''a@b.co'')) = Valid"
    by (simp add: isValidFormData_def valid_record_def lookup_def regex_eval
        optionalStringFields_def)
next
  show "isValidFormData (JObj (valid_record ''not-an-email'')) = Invalid ''Invalid email format''"
    by (simp add: isValidFormData_def valid_record_def lookup_def regex_eval)
qed

lemma not_email_shape_examples:
  "\<not> email_shape ''not-an-email''" "\<not> email_shape []" "\<not> email_shape ''bob at example''"
  unfolding emailRegex_shape [symmetric] by (simp_all add: regex_eval)

text \<open>Both hypotheses at records that satisfy them.\<close>

theorem validator_email_pattern_witness:
  "isValidFormData (JObj (valid_record ''not-an-email'')) \<noteq> Valid
   \<and> isValidFormData (JObj (valid_record ''a@b.co'' @ [(''referrer_email'', JStr ''bob at example'')]))
       \<noteq> Valid"
  using validator_email_pattern [of "JObj (valid_record ''not-an-email'')"]
    validator_email_pattern
      [of "JObj (valid_record ''a@b.co'' @ [(''referrer_email'', JStr ''bob at example'')])"]
  by (simp add: valid_record_def lookup_def not_email_shape_examples)

text \<open>
  Claim C3 as stated rejects every present referrer email that does not match. The
  validator tests the pattern only on a truthy referrer email: the empty string is
  present, does not match, and is accepted.
\<close>

theorem validator_referrer_email_counterexample:
  "get (JObj (valid_record ''a@b.co'' @ [(''referrer_email'', JStr [])])) ''referrer_email''
     = JStr []
   \<and> \<not> email_shape []
   \<and> isValidFormData (JObj (valid_record ''a@b.co'' @ [(''referrer_email'', JStr [])])) = Valid"
  by (simp add: not_email_shape_examples)
     (simp add: isValidFormData_def valid_record_def lookup_def regex_eval optionalStringFields_def)

text \<open>
  Claim C9. A record whose \<^verbatim>\<open>roll_number\<close> is the number 0 is never accepted, and
  when its token and name pass their checks the reason is the one of the roll number:
  presence is decided by truthiness, and 0 is falsy.
\<close>

theorem roll_number_zero_rejected:
  "get body ''roll_number'' = JNum (Finite 0) \<Longrightarrow>
     isValidFormData body \<noteq> Valid
     \<and> (typeof body = ''object'' \<and> body \<noteq> JNull
        \<and> truthy (get body ''captchaToken'') \<and> typeof (get body ''captchaToken'') = ''string''
        \<and> truthy (get body ''name'') \<and> typeof (get body ''name'') = ''string''
        \<longrightarrow> isValidFormData body = Invalid ''Roll number is required and must be a number'')"
  by (simp add: isValidFormData_def split: option.splits)

theorem roll_number_zero_rejected_witness:
  "isValidFormData (JObj [(''captchaToken'', JStr ''tok''), (''name'', JStr ''Ann''),
      (''roll_number'', JNum (Finite 0)), (''gender'', JStr ''F''),
      (''email'', JStr ''ann@x.com''), (''about'', JStr ''hi'')])
   = Invalid ''Roll number is required and must be a number''"
  using roll_number_zero_rejected
    [of "JObj [(''captchaToken'', JStr ''tok''), (''name'', JStr ''Ann''),
      (''roll_number'', JNum (Finite 0)), (''gender'', JStr ''F''),
      (''email'', JStr ''ann@x.com''), (''about'', JStr ''hi'')]"]
  by (simp add: lookup_def)

section \<open>Properties of the routes\<close>

subsection \<open>Objects\<close>

lemma lookup_Nil: "lookup [] k = JUndefined"
  by (simp add: lookup_def)

lemma lookup_Cons: "lookup ((k, v) # kvs) k' = (if k = k' then v else lookup kvs k')"
  by (simp add: lookup_def)

lemma lookup_absent: "k \<notin> set (map fst kvs) \<Longrightarrow> lookup kvs k = JUndefined"
  by (induction kvs) (auto simp: lookup_Nil lookup_Cons)

lemma lookup_filter_key:
  "lookup (filter (\<lambda>(k', x). k' \<noteq> k) kvs) k' = (if k' = k then JUndefined else lookup kvs k')"
  by (induction kvs) (auto simp: lookup_Nil lookup_Cons)

lemma keys_filter_key:
  "set (map fst (filter (\<lambda>(k', x). k' \<noteq> k) kvs)) = set (map fst kvs) - {k}"
  by (induction kvs) auto

lemma lookup_set_prop: "lookup (set_prop k v kvs) k' = (if k' = k then v else lookup kvs k')"
  by (induction kvs) (auto simp: lookup_Nil lookup_Cons)

lemma keys_set_prop: "set (map fst (set_prop k v kvs)) = insert k (set (map fst kvs))"
proof (induction kvs)
  case Nil
  show ?case by simp
next
  case (Cons p kvs)
  obtain k' x where p: "p = (k', x)"
    by (cases p)
  show ?case
    using Cons p by (cases "k' = k") auto
qed

lemma truthy_get_JObj: "truthy (get body k) \<Longrightarrow> \<exists>kvs. body = JObj kvs"
  by (cases body) simp_all

lemma valid_is_object: "isValidFormData body = Valid \<Longrightarrow> \<exists>kvs. body = JObj kvs"
  by (rule truthy_get_JObj [of body "''captchaToken''"])
     (simp add: isValidFormData_Valid required_present_well_typed_def)

subsection \<open>UTF-8\<close>








subsection \<open>The admin key and the export\<close>

lemma compare_all_eq: "length a = length b \<Longrightarrow> compare_all a b = (a = b, length a)"
  by (induction a b rule: list_induct2) auto

lemma validateAdminKey_timed_Some:
  assumes "p \<noteq> []" "a \<noteq> []"
  shows "validateAdminKey_timed (Some p) (Some a) =
     (if length (Buffer_from p) = length (Buffer_from a)
      then (Buffer_from p = Buffer_from a, length (Buffer_from a)) else (False, 0))"
  using assms by (simp add: Let_def timingSafeEqual_def compare_all_eq)

lemma validateAdminKey_iff:
  "validateAdminKey providedKey actualKey \<longleftrightarrow>
     (\<exists>p a. providedKey = Some p \<and> actualKey = Some a \<and> p \<noteq> [] \<and> a \<noteq> []
        \<and> Buffer_from p = Buffer_from a)"
proof (cases providedKey)
  case None
  then show ?thesis by (simp add: validateAdminKey_def)
next
  case p: (Some p)
  show ?thesis
  proof (cases actualKey)
    case None
    with p show ?thesis by (simp add: validateAdminKey_def)
  next
    case (Some a)
    show ?thesis
    proof (cases "p = [] \<or> a = []")
      case True
      with p Some show ?thesis by (auto simp: validateAdminKey_def)
    next
      case False
      then have "validateAdminKey_timed (Some p) (Some a) =
          (if length (Buffer_from p) = length (Buffer_from a)
           then (Buffer_from p = Buffer_from a, length (Buffer_from a)) else (False, 0))"
        by (intro validateAdminKey_timed_Some) simp_all
      with p Some False show ?thesis
        by (auto simp: validateAdminKey_def simp del: validateAdminKey_timed.simps)
    qed
  qed
qed


lemma handler_csv_route:
  "req_method req = ''GET'' \<Longrightarrow> path_of req = ''/csv'' \<Longrightarrow> handler e w req st = csv e w req st"
  by (simp add: handler_def)

lemma handler_submit_route:
  "req_method req = ''POST'' \<Longrightarrow> path_of req = ''/submit'' \<Longrightarrow>
     handler e w req st = submit e w req st"
  by (simp add: handler_def)

lemma csv_rejects:
  "\<not> validateAdminKey (adminKey_of req) (ADMIN_KEY e) \<Longrightarrow>
     csv e w req st = (sendJsonResponse e (JObj [(''error'', JStr ''Invalid admin key'')]) 401, st)"
  by (simp add: csv_def)






lemma csv_request_simps:
  "req_method (csv_request key) = ''GET''" "path_of (csv_request key) = ''/csv''"
  "adminKey_of (csv_request key) = Some key"
  by (simp_all add: csv_request_def path_of_def or_else_def adminKey_of_def)

lemma example_keys:
  "Buffer_from (ascii ''s3cret'') = [115, 51, 99, 114, 101, 116]"
  "Buffer_from (ascii ''guess1'') = [103, 117, 101, 115, 115, 49]"
  "Buffer_from [0xD800] = [239, 191, 189]" "Buffer_from [0xFFFD] = [239, 191, 189]"
  "well_formed (map unat (ascii ''s3cret''))" "well_formed (map unat (ascii ''guess1''))"
  "ascii ''guess1'' \<noteq> ascii ''s3cret''" "ascii ''s3cret'' \<noteq> []" "ascii ''guess1'' \<noteq> []"
  "ADMIN_KEY test_env = Some (ascii ''s3cret'')"
  by (simp_all add: Buffer_from_def ascii_def utf8_def is_high_def is_low_def test_env_def)



text \<open>
  Claim C10. When the configured admin key is unset or empty, the admin-key check is
  false for every provided key, and every export request is rejected, by both
  variants: a missing secret never grants access.
\<close>

theorem unset_admin_key_fails_closed:
  "\<not> truthy_str (ADMIN_KEY e) \<longrightarrow>
     \<not> validateAdminKey providedKey (ADMIN_KEY e)
     \<and> (req_method req = ''GET'' \<and> path_of req = ''/csv''
        \<longrightarrow> handler e w req st
            = (sendJsonResponse e (JObj [(''error'', JStr ''Invalid admin key'')]) 401, st))
     \<and> to_csv_ts e w q st
        = (Inr \<lparr>res_status = 403, res_payload = Text ''Forbidden: Admin key required'',
            res_headers = []\<rparr>, st)"
proof (intro impI conjI)
  assume a: "\<not> truthy_str (ADMIN_KEY e)"
  then show no: "\<not> validateAdminKey providedKey (ADMIN_KEY e)" for providedKey
    by (cases "ADMIN_KEY e") (auto simp: validateAdminKey_iff)
  show "handler e w req st
            = (sendJsonResponse e (JObj [(''error'', JStr ''Invalid admin key'')]) 401, st)"
    if "req_method req = ''GET'' \<and> path_of req = ''/csv''"
    using that no by (simp add: handler_csv_route csv_rejects)
  show "to_csv_ts e w q st
        = (Inr \<lparr>res_status = 403, res_payload = Text ''Forbidden: Admin key required'',
            res_headers = []\<rparr>, st)"
    using a by (cases "ADMIN_KEY e"; cases "providedKey_of q") (simp_all add: to_csv_ts_def)
qed

text \<open>An unset key against the key an administrator would send, and an empty key
  against an empty key.\<close>

theorem unset_admin_key_fails_closed_witness:
  "\<not> validateAdminKey (Some (ascii ''s3cret'')) (ADMIN_KEY (test_env\<lparr>ADMIN_KEY := None\<rparr>))
   \<and> handler (test_env\<lparr>ADMIN_KEY := Some []\<rparr>) accepting_world (csv_request []) empty_store
     = (sendJsonResponse (test_env\<lparr>ADMIN_KEY := Some []\<rparr>)
          (JObj [(''error'', JStr ''Invalid admin key'')]) 401, empty_store)
   \<and> to_csv_ts (test_env\<lparr>ADMIN_KEY := None\<rparr>) accepting_world (QString (ascii ''s3cret''))
        empty_store
     = (Inr \<lparr>res_status = 403, res_payload = Text ''Forbidden: Admin key required'',
         res_headers = []\<rparr>, empty_store)"
  using unset_admin_key_fails_closed
      [where e = "test_env\<lparr>ADMIN_KEY := None\<rparr>" and providedKey = "Some (ascii ''s3cret'')"
        and q = "QString (ascii ''s3cret'')" and w = accepting_world and st = empty_store]
    unset_admin_key_fails_closed
      [where e = "test_env\<lparr>ADMIN_KEY := Some []\<rparr>" and req = "csv_request []"
        and w = accepting_world and st = empty_store]
  by (simp add: csv_request_simps)

subsection \<open>The abuse check\<close>

lemma submit_request_simps:
  "req_method (submit_request body) = ''POST''" "path_of (submit_request body) = ''/submit''"
  "req_body (submit_request body) = body"
  by (simp_all add: submit_request_def path_of_def or_else_def)

lemma submit_captcha_fail:
  assumes "verifyCaptcha e (siteverify w) (get (req_body req) ''captchaToken'')
             = CaptchaFail err details"
  shows "snd (submit e w req st) = st \<and> res_status (fst (submit e w req st)) = 400"
  using assms by (simp add: submit_def sendJsonResponse_def split: validation.splits)

lemma submit_ts_captcha_fail:
  assumes "verifyCaptcha_ts e (siteverify w) (get body ''captchaToken'') = CaptchaFail err details"
  shows "snd (submit_ts e w body st) = st"
  using assms by (simp add: submit_ts_def Let_def)

lemma verifyCaptcha_no_token:
  "\<not> truthy token \<Longrightarrow>
     verifyCaptcha e sv token = CaptchaFail ''CAPTCHA token is required'' JUndefined
     \<and> verifyCaptcha_ts e sv token = CaptchaFail ''CAPTCHA token is required'' JUndefined"
  by (simp add: verifyCaptcha_def verifyCaptcha_ts_def)

lemma verifyCaptcha_low_score:
  assumes "truthy token" "GOOGLE_CAPTCHA_SECRET_KEY e = Some secret" "secret \<noteq> []"
    "sv secret token = Reply True (Some sc) codes" "below_half sc"
  shows "verifyCaptcha e sv token
           = CaptchaFail ''CAPTCHA score too low, please try again'' JUndefined
     \<and> verifyCaptcha_ts e sv token
           = CaptchaFail ''CAPTCHA score too low, please try again'' JUndefined"
  using assms by (simp add: verifyCaptcha_def verifyCaptcha_ts_def)

text \<open>
  Claim C6. When the abuse check rejects the token of a submission, the store after
  the request is the store before it, log of calls included: no connection, no query,
  no insert, in the function of \<^verbatim>\<open>index.cjs\<close> (which answers 400) and in the server
  of \<^verbatim>\<open>server.ts\<close>. A missing or empty token and a score below 0.5 are such
  rejections.
\<close>

theorem rejected_token_never_reaches_store:
  "((\<exists>err details. verifyCaptcha e (siteverify w) (get (req_body req) ''captchaToken'')
         = CaptchaFail err details)
      \<and> req_method req = ''POST'' \<and> path_of req = ''/submit''
     \<longrightarrow> snd (handler e w req st) = st \<and> res_status (fst (handler e w req st)) = 400)
   \<and> ((\<exists>err details. verifyCaptcha_ts e (siteverify w) (get body ''captchaToken'')
         = CaptchaFail err details)
     \<longrightarrow> snd (submit_ts e w body st) = st)
   \<and> (\<not> truthy token
     \<longrightarrow> verifyCaptcha e sv token = CaptchaFail ''CAPTCHA token is required'' JUndefined
        \<and> verifyCaptcha_ts e sv token = CaptchaFail ''CAPTCHA token is required'' JUndefined)
   \<and> (truthy token \<and> GOOGLE_CAPTCHA_SECRET_KEY e = Some secret \<and> secret \<noteq> []
        \<and> sv secret token = Reply True (Some (Finite q)) codes \<and> q < 1 / 2
     \<longrightarrow> verifyCaptcha e sv token
           = CaptchaFail ''CAPTCHA score too low, please try again'' JUndefined
        \<and> verifyCaptcha_ts e sv token
           = CaptchaFail ''CAPTCHA score too low, please try again'' JUndefined)"
proof (intro conjI impI)
  assume a: "(\<exists>err details. verifyCaptcha e (siteverify w) (get (req_body req) ''captchaToken'')
         = CaptchaFail err details)
      \<and> req_method req = ''POST'' \<and> path_of req = ''/submit''"
  then obtain err details where
    "verifyCaptcha e (siteverify w) (get (req_body req) ''captchaToken'') = CaptchaFail err details"
    by blast
  from submit_captcha_fail [OF this, of st] a
  show "snd (handler e w req st) = st" "res_status (fst (handler e w req st)) = 400"
    by (simp_all add: handler_submit_route)
next
  assume "\<exists>err details. verifyCaptcha_ts e (siteverify w) (get body ''captchaToken'')
         = CaptchaFail err details"
  then obtain err details where
    "verifyCaptcha_ts e (siteverify w) (get body ''captchaToken'') = CaptchaFail err details"
    by blast
  then show "snd (submit_ts e w body st) = st"
    by (rule submit_ts_captcha_fail)
next
  assume "\<not> truthy token"
  then show "verifyCaptcha e sv token = CaptchaFail ''CAPTCHA token is required'' JUndefined"
    "verifyCaptcha_ts e sv token = CaptchaFail ''CAPTCHA token is required'' JUndefined"
    by (simp_all add: verifyCaptcha_no_token)
next
  assume "truthy token \<and> GOOGLE_CAPTCHA_SECRET_KEY e = Some secret \<and> secret \<noteq> []
        \<and> sv secret token = Reply True (Some (Finite q)) codes \<and> q < 1 / 2"
  then show "verifyCaptcha e sv token
           = CaptchaFail ''CAPTCHA score too low, please try again'' JUndefined"
    "verifyCaptcha_ts e sv token
           = CaptchaFail ''CAPTCHA score too low, please try again'' JUndefined"
    using verifyCaptcha_low_score [of token e secret sv "Finite q" codes] by simp_all
qed

text \<open>A valid record whose token scores 0.3, and a record without a token.\<close>

theorem rejected_token_never_reaches_store_witness:
  "handler test_env low_score_world (submit_request (JObj (valid_record ''ann@x.com''))) empty_store
     = (sendJsonResponse test_env
          (JObj [(''error'', JStr ''CAPTCHA score too low, please try again''),
                 (''details'', JUndefined)]) 400,
        empty_store)
   \<and> snd (submit_ts test_env low_score_world (JObj (valid_record ''ann@x.com'')) empty_store)
       = empty_store
   \<and> snd (submit_ts test_env accepting_world (JObj [(''name'', JStr ''Ann'')]) empty_store)
       = empty_store"
proof -
  have v: "verifyCaptcha test_env (siteverify low_score_world) (JStr ''tok'')
        = CaptchaFail ''CAPTCHA score too low, please try again'' JUndefined"
    "verifyCaptcha_ts test_env (siteverify low_score_world) (JStr ''tok'')
        = CaptchaFail ''CAPTCHA score too low, please try again'' JUndefined"
    using rejected_token_never_reaches_store
      [where e = test_env and token = "JStr ''tok''" and sv = "siteverify low_score_world"
        and secret = "''captcha-secret''" and q = "3 / 10" and codes = JUndefined]
    by (simp_all add: test_env_def low_score_world_def accepting_world_def)
  have t: "get (JObj (valid_record ''ann@x.com'')) ''captchaToken'' = JStr ''tok''"
    "lookup (valid_record ''ann@x.com'') ''captchaToken'' = JStr ''tok''"
    by (simp_all add: valid_record_def lookup_def)
  have ok: "isValidFormData (JObj (valid_record ''ann@x.com'')) = Valid"
    by (simp add: isValidFormData_Valid valid_record_well_typed [of "[]", simplified])
       (simp add: optional_fields_ok_def valid_record_def lookup_def optionalStringFields_def)
  have "handler test_env low_score_world (submit_request (JObj (valid_record ''ann@x.com'')))
          empty_store
     = (sendJsonResponse test_env
          (JObj [(''error'', JStr ''CAPTCHA score too low, please try again''),
                 (''details'', JUndefined)]) 400,
        empty_store)"
    by (simp add: handler_submit_route submit_request_simps submit_def ok t v)
  moreover have "snd (submit_ts test_env low_score_world (JObj (valid_record ''ann@x.com''))
       empty_store) = empty_store"
    using rejected_token_never_reaches_store
      [where e = test_env and w = low_score_world and body = "JObj (valid_record ''ann@x.com'')"
        and st = empty_store]
    by (simp add: t v)
  moreover have "snd (submit_ts test_env accepting_world (JObj [(''name'', JStr ''Ann'')])
       empty_store) = empty_store"
    using rejected_token_never_reaches_store
      [where e = test_env and w = accepting_world and body = "JObj [(''name'', JStr ''Ann'')]"
        and st = empty_store and token = JUndefined and sv = "siteverify accepting_world"]
    by (simp add: lookup_def)
  ultimately show ?thesis
    by simp
qed

subsection \<open>The export\<close>

lemma docs_record_op: "docs (record_op op st) = docs st"
  by (simp add: record_op_def)

lemma ops_record_op: "ops (record_op op st) = ops st @ [op]"
  by (simp add: record_op_def)

lemma record_op_thrice:
  "record_op c (record_op b (record_op a st)) = st\<lparr>ops := ops st @ [a, b, c]\<rparr>"
  by (simp add: record_op_def)

lemma csv_authorised:
  assumes "validateAdminKey (adminKey_of req) (ADMIN_KEY e)"
    "connect_fault w = None" "find_fault w = None" "close_fault w = None"
  shows "csv e w req st =
     (\<lparr>res_status = 200,
       res_payload = Text (case docs st of [] \<Rightarrow> []
         | first # others \<Rightarrow>
             join [CHR 0x0A] (csvRows w (map fst first) (docs st))),
       res_headers = csv_headers\<rparr>,
      st\<lparr>ops := ops st @ [Connect, FindAll, Close]\<rparr>)"
  using assms
  by (simp add: csv_def Let_def docs_record_op record_op_thrice split: list.splits)

lemma csv_cell_text_JStr:
  assumes "lookup row field = JStr s"
  shows "csv_cell_text w row field = [CHR 0x22] @ replace_quotes s @ [CHR 0x22]"
  using assms by (simp add: csv_cell_text_def lookup_def join_text_def split: option.splits)

lemma csv_cell_text_inherited:
  assumes "map_of row field = None" "field \<in> set object_prototype_names"
  shows "csv_cell_text w row field = inherited_text w field"
  using assms by (simp add: csv_cell_text_def)

lemma csv_row_cells:
  "\<exists>cells. csv_row w headers row = join '','' cells \<and> length cells = length headers
     \<and> (\<forall>j<length headers. \<forall>s. lookup row (headers ! j) = JStr s
          \<longrightarrow> cells ! j = [CHR 0x22]
                @ concat (map (\<lambda>c. if c = CHR 0x22 then [CHR 0x22, CHR 0x22] else [c]) s)
                @ [CHR 0x22])"
proof -
  let ?cells = "map (csv_cell_text w row) headers"
  have "csv_row w headers row = join '','' ?cells"
    by (simp add: csv_row_def)
  moreover have "length ?cells = length headers"
    by simp
  moreover have "\<forall>j<length headers. \<forall>s. lookup row (headers ! j) = JStr s
          \<longrightarrow> ?cells ! j = [CHR 0x22]
                @ concat (map (\<lambda>c. if c = CHR 0x22 then [CHR 0x22, CHR 0x22] else [c]) s)
                @ [CHR 0x22]"
    by (simp add: csv_cell_text_JStr replace_quotes_def)
  ultimately show ?thesis
    by blast
qed

text \<open>
  Claim C7. An authorised export whose store calls succeed answers 200 with content
  type \<open>text/csv\<close>; its body is empty on an empty store, and otherwise it is the
  lines, joined by newlines, of a header (the field names of the first record joined
  by commas) and one row for each record; a row is its cells joined by commas, one
  cell for each header field, and the cell of a text field is the text between double
  quotes with every double quote in it doubled.
\<close>

theorem csv_export_layout:
  "validateAdminKey (adminKey_of req) (ADMIN_KEY e)
     \<and> connect_fault w = None \<and> find_fault w = None \<and> close_fault w = None
     \<and> req_method req = ''GET'' \<and> path_of req = ''/csv''
   \<longrightarrow> snd (handler e w req st) = st\<lparr>ops := ops st @ [Connect, FindAll, Close]\<rparr>
      \<and> res_status (fst (handler e w req st)) = 200
      \<and> map_of (res_headers (fst (handler e w req st))) ''Content-Type'' = Some ''text/csv''
      \<and> (docs st = [] \<longrightarrow> res_payload (fst (handler e w req st)) = Text [])
      \<and> (\<forall>first others. docs st = first # others \<longrightarrow>
            (\<exists>rows. res_payload (fst (handler e w req st))
                       = Text (join [CHR 0x0A] (join '','' (map fst first) # rows))
               \<and> length rows = length (docs st)
               \<and> (\<forall>i<length (docs st). \<exists>cells.
                     rows ! i = join '','' cells \<and> length cells = length first
                     \<and> (\<forall>j<length first. \<forall>s.
                           lookup (docs st ! i) (fst (first ! j)) = JStr s
                           \<longrightarrow> cells ! j = [CHR 0x22]
                                 @ concat (map (\<lambda>c. if c = CHR 0x22
                                                      then [CHR 0x22, CHR 0x22] else [c]) s)
                                 @ [CHR 0x22]))))"
proof (intro impI)
  assume a: "validateAdminKey (adminKey_of req) (ADMIN_KEY e)
     \<and> connect_fault w = None \<and> find_fault w = None \<and> close_fault w = None
     \<and> req_method req = ''GET'' \<and> path_of req = ''/csv''"
  then have h: "handler e w req st =
     (\<lparr>res_status = 200,
       res_payload = Text (case docs st of [] \<Rightarrow> []
         | first # others \<Rightarrow>
             join [CHR 0x0A] (csvRows w (map fst first) (docs st))),
       res_headers = csv_headers\<rparr>,
      st\<lparr>ops := ops st @ [Connect, FindAll, Close]\<rparr>)"
    by (simp add: handler_csv_route csv_authorised)
  have rows: "\<exists>rows. res_payload (fst (handler e w req st))
                       = Text (join [CHR 0x0A] (join '','' (map fst first) # rows))
               \<and> length rows = length (docs st)
               \<and> (\<forall>i<length (docs st). \<exists>cells.
                     rows ! i = join '','' cells \<and> length cells = length first
                     \<and> (\<forall>j<length first. \<forall>s.
                           lookup (docs st ! i) (fst (first ! j)) = JStr s
                           \<longrightarrow> cells ! j = [CHR 0x22]
                                 @ concat (map (\<lambda>c. if c = CHR 0x22
                                                      then [CHR 0x22, CHR 0x22] else [c]) s)
                                 @ [CHR 0x22]))"
    if d: "docs st = first # others" for first others
  proof -
    let ?rows = "map (csv_row w (map fst first)) (docs st)"
    have "res_payload (fst (handler e w req st))
            = Text (join [CHR 0x0A] (join '','' (map fst first) # ?rows))"
      using d by (simp add: h csvRows_def)
    moreover have "length ?rows = length (docs st)"
      by simp
    moreover have "\<exists>cells. ?rows ! i = join '','' cells \<and> length cells = length first
                     \<and> (\<forall>j<length first. \<forall>s.
                           lookup (docs st ! i) (fst (first ! j)) = JStr s
                           \<longrightarrow> cells ! j = [CHR 0x22]
                                 @ concat (map (\<lambda>c. if c = CHR 0x22
                                                      then [CHR 0x22, CHR 0x22] else [c]) s)
                                 @ [CHR 0x22])"
      if "i < length (docs st)" for i
      using that csv_row_cells [of w "map fst first" "docs st ! i"] by simp
    ultimately show ?thesis
      by blast
  qed
  show "snd (handler e w req st) = st\<lparr>ops := ops st @ [Connect, FindAll, Close]\<rparr>
      \<and> res_status (fst (handler e w req st)) = 200
      \<and> map_of (res_headers (fst (handler e w req st))) ''Content-Type'' = Some ''text/csv''
      \<and> (docs st = [] \<longrightarrow> res_payload (fst (handler e w req st)) = Text [])
      \<and> (\<forall>first others. docs st = first # others \<longrightarrow>
            (\<exists>rows. res_payload (fst (handler e w req st))
                       = Text (join [CHR 0x0A] (join '','' (map fst first) # rows))
               \<and> length rows = length (docs st)
               \<and> (\<forall>i<length (docs st). \<exists>cells.
                     rows ! i = join '','' cells \<and> length cells = length first
                     \<and> (\<forall>j<length first. \<forall>s.
                           lookup (docs st ! i) (fst (first ! j)) = JStr s
                           \<longrightarrow> cells ! j = [CHR 0x22]
                                 @ concat (map (\<lambda>c. if c = CHR 0x22
                                                      then [CHR 0x22, CHR 0x22] else [c]) s)
                                 @ [CHR 0x22]))))"
    using rows by (simp add: h csv_headers_def)
qed

text \<open>The empty store, and a store of two records with a quote and a comma in their
  texts.\<close>

theorem csv_export_layout_witness:
  "handler test_env (accepting_world\<lparr>to_string := (\<lambda>v. ''7'')\<rparr>) (csv_request (ascii ''s3cret''))
      empty_store
     = (\<lparr>res_status = 200, res_payload = Text [], res_headers = csv_headers\<rparr>,
        \<lparr>docs = [], ops = [Connect, FindAll, Close]\<rparr>)
   \<and> res_payload (fst (handler test_env (accepting_world\<lparr>to_string := (\<lambda>v. ''7'')\<rparr>)
        (csv_request (ascii ''s3cret'')) two_registrations))
     = Text (''name,roll_number,about'' @ [CHR 0x0A]
         @ [CHR 0x22] @ ''Ann'' @ [CHR 0x22] @ '',7,''
         @ [CHR 0x22] @ ''say '' @ [CHR 0x22, CHR 0x22] @ ''hi'' @ [CHR 0x22, CHR 0x22]
         @ [CHR 0x22] @ [CHR 0x0A]
         @ [CHR 0x22] @ ''Bob, Jr'' @ [CHR 0x22] @ '',,'')"
proof -
  have k: "validateAdminKey (adminKey_of (csv_request (ascii ''s3cret''))) (ADMIN_KEY test_env)"
    by (simp add: validateAdminKey_iff csv_request_simps example_keys)
  have f: "connect_fault (accepting_world\<lparr>to_string := (\<lambda>v. ''7'')\<rparr>) = None"
    "find_fault (accepting_world\<lparr>to_string := (\<lambda>v. ''7'')\<rparr>) = None"
    "close_fault (accepting_world\<lparr>to_string := (\<lambda>v. ''7'')\<rparr>) = None"
    by (simp_all add: accepting_world_def)
  have "handler test_env (accepting_world\<lparr>to_string := (\<lambda>v. ''7'')\<rparr>) (csv_request (ascii ''s3cret''))
      empty_store
     = (\<lparr>res_status = 200, res_payload = Text [], res_headers = csv_headers\<rparr>,
        \<lparr>docs = [], ops = [Connect, FindAll, Close]\<rparr>)"
    using csv_export_layout [where req = "csv_request (ascii ''s3cret'')" and e = test_env
        and w = "accepting_world\<lparr>to_string := (\<lambda>v. ''7'')\<rparr>" and st = empty_store] k f
    by (simp add: csv_request_simps handler_csv_route csv_authorised empty_store_def)
  moreover have "res_payload (fst (handler test_env (accepting_world\<lparr>to_string := (\<lambda>v. ''7'')\<rparr>)
        (csv_request (ascii ''s3cret'')) two_registrations))
     = Text (''name,roll_number,about'' @ [CHR 0x0A]
         @ [CHR 0x22] @ ''Ann'' @ [CHR 0x22] @ '',7,''
         @ [CHR 0x22] @ ''say '' @ [CHR 0x22, CHR 0x22] @ ''hi'' @ [CHR 0x22, CHR 0x22]
         @ [CHR 0x22] @ [CHR 0x0A]
         @ [CHR 0x22] @ ''Bob, Jr'' @ [CHR 0x22] @ '',,'')"
    using k f
    by (simp add: csv_request_simps handler_csv_route csv_authorised two_registrations_def
        csvRows_def csv_row_def csv_cell_text_def join_text_def replace_quotes_def
        object_prototype_names_def)
  ultimately show ?thesis
    by simp
qed

subsection \<open>Submissions\<close>

lemma lookup_rest_without:
  "lookup (rest_without k (JObj kvs)) k' = (if k' = k then JUndefined else lookup kvs k')"
  by (simp add: rest_without_def lookup_filter_key)

lemma keys_rest_without:
  "set (map fst (rest_without k body)) = set (map fst (own_props body)) - {k}"
  by (simp only: rest_without_def keys_filter_key)

lemma lookup_stored_form: "k \<noteq> ''_id'' \<Longrightarrow> lookup (stored_form w d) k = lookup d k"
  by (simp add: stored_form_def lookup_Cons lookup_filter_key)

lemma keys_stored_form:
  "set (map fst (stored_form w d)) = insert ''_id'' (set (map fst d) - {''_id''})"
  unfolding stored_form_def list.map list.set fst_conv keys_filter_key by (rule refl)

lemma findOne_record_op: "findOne r m (record_op op st) = findOne r m st"
  by (simp add: findOne_def docs_record_op)

lemma findOne_ops: "findOne r m (st\<lparr>ops := x\<rparr>) = findOne r m st"
  by (simp add: findOne_def)

lemma findOne_Some:
  "findOne r m st = Some d \<Longrightarrow>
     d \<in> set (docs st) \<and> (lookup d ''roll_number'' = r \<or> lookup d ''email'' = m)"
  unfolding findOne_def find_Some_iff matches_or_def by (auto simp: in_set_conv_nth)

lemma findOne_None:
  "findOne r m st = None \<longleftrightarrow>
     (\<forall>d \<in> set (docs st). lookup d ''roll_number'' \<noteq> r \<and> lookup d ''email'' \<noteq> m)"
  unfolding findOne_def find_None_iff matches_or_def by blast

lemma strict_eq_number:
  "truthy (JNum n) \<Longrightarrow> strict_eq v (JNum n) \<longleftrightarrow> v = JNum n"
  by (cases v; cases n) auto

lemma valid_roll_number:
  "isValidFormData body = Valid \<Longrightarrow> \<exists>n. get body ''roll_number'' = JNum n \<and> truthy (JNum n)"
  by (cases "get body ''roll_number''")
     (simp_all add: isValidFormData_Valid required_present_well_typed_def)

text \<open>The three ways through the submit route once the token is accepted and the
  connection is made: a duplicate is found, the record is inserted, and what a 200
  answer tells.\<close>

lemma submit_found:
  assumes "isValidFormData (req_body req) = Valid"
    "verifyCaptcha e (siteverify w) (get (req_body req) ''captchaToken'') = CaptchaOk score"
    "connect_fault w = None" "findOne_fault w = None" "close_fault w = None"
    "findOne (get (req_body req) ''roll_number'') (get (req_body req) ''email'') st = Some d"
  shows "submit e w req st =
     (sendJsonResponse e
        (JObj [(''error'', JStr (''Registration with this ''
           @ (if lookup d ''roll_number'' = get (req_body req) ''roll_number''
              then ''roll number'' else ''email'')
           @ '' already exists''))]) 409,
      st\<lparr>ops := ops st @ [Connect,
         FindOne (get (req_body req) ''roll_number'') (get (req_body req) ''email''), Close]\<rparr>)"
proof -
  obtain kvs where b: "req_body req = JObj kvs"
    using valid_is_object [OF assms(1)] by blast
  obtain n where n: "get (req_body req) ''roll_number'' = JNum n" "truthy (JNum n)"
    using valid_roll_number [OF assms(1)] by blast
  have r: "lookup (rest_without ''captchaToken'' (JObj kvs)) ''roll_number'' = JNum n"
    "lookup (rest_without ''captchaToken'' (JObj kvs)) ''email'' = lookup kvs ''email''"
    using n(1) b by (simp_all add: lookup_rest_without)
  have se: "strict_eq (lookup d ''roll_number'') (JNum n) \<longleftrightarrow> lookup d ''roll_number'' = JNum n"
    using n(2) by (rule strict_eq_number)
  have f: "findOne (JNum n) (lookup kvs ''email'') st = Some d"
    using assms(6) b n(1) by simp
  show ?thesis
    using assms(1-5) n(1)
    by (simp add: submit_def b r se f Let_def findOne_record_op record_op_thrice)
qed

lemma submit_inserted:
  assumes "isValidFormData (req_body req) = Valid"
    "verifyCaptcha e (siteverify w) (get (req_body req) ''captchaToken'') = CaptchaOk score"
    "connect_fault w = None" "findOne_fault w = None" "close_fault w = None"
    "insertOne_fault w = None"
    "findOne (get (req_body req) ''roll_number'') (get (req_body req) ''email'') st = None"
    "doc = set_prop ''submittedAt'' (JStr (toISOString w (clock w 1)))
             (set_prop ''createdAt'' (JDate (clock w 0))
               (rest_without ''captchaToken'' (req_body req)))"
  shows "submit e w req st =
     (sendJsonResponse e
        (JObj [(''success'', JBool True), (''id'', JStr (to_string w (inserted_id w doc))),
               (''message'', JStr ''Form submitted successfully'')]) 200,
      \<lparr>docs = docs st @ [stored_form w doc],
        ops = ops st @ [Connect,
          FindOne (get (req_body req) ''roll_number'') (get (req_body req) ''email''),
          InsertOne doc, Close]\<rparr>)"
proof -
  obtain kvs where b: "req_body req = JObj kvs"
    using valid_is_object [OF assms(1)] by blast
  have r: "lookup (rest_without ''captchaToken'' (JObj kvs)) ''roll_number''
             = lookup kvs ''roll_number''"
    "lookup (rest_without ''captchaToken'' (JObj kvs)) ''email'' = lookup kvs ''email''"
    by (simp_all add: lookup_rest_without)
  have f: "findOne (lookup kvs ''roll_number'') (lookup kvs ''email'') st = None"
    using assms(7) b by simp
  show ?thesis
    using assms(1-6)
    by (simp add: submit_def b r f assms(8) Let_def findOne_ops record_op_def insertOne_def)
qed

lemma submit_status_200:
  assumes "res_status (fst (submit e w req st)) = 200"
  shows "isValidFormData (req_body req) = Valid
     \<and> (\<exists>score. verifyCaptcha e (siteverify w) (get (req_body req) ''captchaToken'')
           = CaptchaOk score)
     \<and> connect_fault w = None \<and> findOne_fault w = None \<and> close_fault w = None
     \<and> insertOne_fault w = None
     \<and> findOne (get (req_body req) ''roll_number'') (get (req_body req) ''email'') st = None"
proof -
  have v: "isValidFormData (req_body req) = Valid"
    using assms by (cases "isValidFormData (req_body req)")
      (simp_all add: submit_def sendJsonResponse_def)
  then obtain kvs where b: "req_body req = JObj kvs"
    using valid_is_object by blast
  obtain score where c: "verifyCaptcha e (siteverify w) (get (req_body req) ''captchaToken'')
           = CaptchaOk score"
    using assms v
    by (cases "verifyCaptcha e (siteverify w) (get (req_body req) ''captchaToken'')")
       (simp_all add: submit_def sendJsonResponse_def)
  have cf: "connect_fault w = None"
    using assms v c
    by (cases "connect_fault w")
       (simp_all add: submit_def sendJsonResponse_def db_error_response_def Let_def)
  have ff: "findOne_fault w = None"
    using assms v c cf
    by (cases "findOne_fault w")
       (simp_all add: submit_def sendJsonResponse_def db_error_response_def Let_def)
  have r: "lookup (rest_without ''captchaToken'' (JObj kvs)) ''roll_number''
             = lookup kvs ''roll_number''"
    "lookup (rest_without ''captchaToken'' (JObj kvs)) ''email'' = lookup kvs ''email''"
    by (simp_all add: lookup_rest_without)
  have fo: "findOne (lookup kvs ''roll_number'') (lookup kvs ''email'') st = None"
  proof (cases "findOne (lookup kvs ''roll_number'') (lookup kvs ''email'') st")
    case None
    then show ?thesis .
  next
    case (Some d)
    with assms v c cf ff show ?thesis
      by (cases "close_fault w")
         (simp_all add: submit_def b r Let_def findOne_record_op sendJsonResponse_def
           db_error_response_def)
  qed
  have "insertOne_fault w = None"
    using assms v c cf ff fo
    by (cases "insertOne_fault w")
       (simp_all add: submit_def b r Let_def findOne_record_op sendJsonResponse_def
         db_error_response_def)
  moreover from this have "close_fault w = None"
    using assms v c cf ff fo
    by (cases "close_fault w")
       (simp_all add: submit_def b r Let_def findOne_record_op sendJsonResponse_def
         db_error_response_def)
  ultimately show ?thesis
    using v c cf ff fo b by simp
qed

lemma lookup_rest_without_any:
  "lookup (rest_without k body) k' = (if k' = k then JUndefined else lookup (own_props body) k')"
  by (simp add: rest_without_def lookup_filter_key)

lemma get_own_props: "truthy (get body k') \<Longrightarrow> lookup (own_props body) k = get body k"
  by (cases body) simp_all

lemma saved_document_fields:
  assumes "doc = set_prop ''submittedAt'' v2 (set_prop ''createdAt'' v1
             (rest_without ''captchaToken'' body))"
  shows "lookup doc ''createdAt'' = v1" "lookup doc ''submittedAt'' = v2"
    "lookup doc ''captchaToken'' = JUndefined"
    "\<forall>k. k \<notin> {''captchaToken'', ''createdAt'', ''submittedAt''}
        \<longrightarrow> lookup doc k = lookup (own_props body) k"
    "set (map fst doc)
       = (set (map fst (own_props body)) - {''captchaToken''}) \<union> {''createdAt'', ''submittedAt''}"
    "''captchaToken'' \<notin> set (map fst doc)"
proof -
  show "lookup doc ''createdAt'' = v1" "lookup doc ''submittedAt'' = v2"
    "lookup doc ''captchaToken'' = JUndefined"
    "\<forall>k. k \<notin> {''captchaToken'', ''createdAt'', ''submittedAt''}
        \<longrightarrow> lookup doc k = lookup (own_props body) k"
    by (simp_all add: assms lookup_set_prop lookup_rest_without_any)
  show k: "set (map fst doc)
       = (set (map fst (own_props body)) - {''captchaToken''}) \<union> {''createdAt'', ''submittedAt''}"
    unfolding assms keys_set_prop keys_rest_without by blast
  show "''captchaToken'' \<notin> set (map fst doc)"
    unfolding k by simp
qed


lemma lookup_stored_form_id: "lookup (stored_form w d) ''_id'' = inserted_id w d"
  by (simp add: stored_form_def lookup_Cons)

lemma csv_docs: "docs (snd (csv e w req st)) = docs st"
  by (simp add: csv_def Let_def docs_record_op split: option.splits list.splits)

lemma handler_other_docs:
  "\<not> (path_of req = ''/submit'' \<and> req_method req = ''POST'')
     \<Longrightarrow> docs (snd (handler e w req st)) = docs st"
  by (auto simp: handler_def Let_def csv_docs)

text \<open>The submit route either leaves the documents as they are and does not answer
  200, or it has inserted the document it built.\<close>

lemma submit_store:
  "(docs (snd (submit e w req st)) = docs st \<and> res_status (fst (submit e w req st)) \<noteq> 200)
   \<or> (isValidFormData (req_body req) = Valid
       \<and> snd (submit e w req st)
           = \<lparr>docs = docs st @ [stored_form w
                 (set_prop ''submittedAt'' (JStr (toISOString w (clock w 1)))
                   (set_prop ''createdAt'' (JDate (clock w 0))
                     (rest_without ''captchaToken'' (req_body req))))],
              ops = ops st @ [Connect,
                FindOne (get (req_body req) ''roll_number'') (get (req_body req) ''email''),
                InsertOne (set_prop ''submittedAt'' (JStr (toISOString w (clock w 1)))
                   (set_prop ''createdAt'' (JDate (clock w 0))
                     (rest_without ''captchaToken'' (req_body req)))),
                Close]\<rparr>)"
proof (cases "isValidFormData (req_body req)")
  case (Invalid err)
  then show ?thesis
    by (simp add: submit_def sendJsonResponse_def)
next
  case Valid
  then obtain kvs where b: "req_body req = JObj kvs"
    using valid_is_object by blast
  have r: "lookup (rest_without ''captchaToken'' (JObj kvs)) ''roll_number''
             = lookup kvs ''roll_number''"
    "lookup (rest_without ''captchaToken'' (JObj kvs)) ''email'' = lookup kvs ''email''"
    by (simp_all add: lookup_rest_without)
  show ?thesis
    using Valid
    by (simp add: submit_def b r Let_def findOne_ops record_op_def insertOne_def
        sendJsonResponse_def db_error_response_def
        split: captcha_result.splits option.splits)
qed

lemma verifyCaptcha_ts_Ok:
  "verifyCaptcha_ts e sv token = CaptchaOk score \<Longrightarrow> truthy token"
  by (rule ccontr) (simp add: verifyCaptcha_ts_def)

lemma insertData_result:
  "insertData w formData st =
     (case insertData_fault w of
        Some err \<Rightarrow> (st\<lparr>ops := ops st @ [InsertData formData]\<rparr>, Some err)
      | None \<Rightarrow>
         (case findOne (lookup formData ''roll_number'') (lookup formData ''email'') st of
            Some existing \<Rightarrow> (st\<lparr>ops := ops st @ [InsertData formData]\<rparr>, Some (duplicate_error w))
          | None \<Rightarrow>
              (\<lparr>docs = docs st @ [stored_form w
                   (set_prop ''submittedAt'' (JStr (toISOString w (clock w 1)))
                     (set_prop ''createdAt'' (JDate (clock w 0)) formData))],
                ops = ops st @ [InsertData formData]\<rparr>, None)))"
  by (simp add: insertData_def Let_def findOne_ops record_op_def insertOne_def
      split: option.splits)

text \<open>The three ways through the submit route of the server: nothing reaches the
  store, \<^verbatim>\<open>insertData\<close> throws, or it has persisted the record.\<close>

lemma submit_ts_store:
  "(snd (submit_ts e w body st) = st \<and> res_status (fst (submit_ts e w body st)) \<noteq> 200)
   \<or> (truthy (get body ''captchaToken'')
       \<and> snd (submit_ts e w body st)
           = st\<lparr>ops := ops st @ [InsertData (rest_without ''captchaToken'' body)]\<rparr>
       \<and> res_status (fst (submit_ts e w body st)) \<noteq> 200)
   \<or> (truthy (get body ''captchaToken'')
       \<and> snd (submit_ts e w body st)
           = \<lparr>docs = docs st @ [stored_form w
                 (set_prop ''submittedAt'' (JStr (toISOString w (clock w 1)))
                   (set_prop ''createdAt'' (JDate (clock w 0))
                     (rest_without ''captchaToken'' body)))],
              ops = ops st @ [InsertData (rest_without ''captchaToken'' body)]\<rparr>)"
proof (cases "verifyCaptcha_ts e (siteverify w) (get body ''captchaToken'')")
  case (CaptchaFail err details)
  then show ?thesis
    by (simp add: submit_ts_def Let_def)
next
  case (CaptchaOk score)
  then have t: "truthy (get body ''captchaToken'')"
    by (rule verifyCaptcha_ts_Ok)
  then have nn: "body \<noteq> JUndefined" "body \<noteq> JNull"
    by auto
  show ?thesis
    using CaptchaOk t nn
    by (simp add: submit_ts_def Let_def insertData_result split: option.splits)
qed

lemma submit_ts_succeeds:
  assumes "verifyCaptcha_ts e (siteverify w) (get body ''captchaToken'') = CaptchaOk score"
    "insertData_fault w = None"
    "findOne (get body ''roll_number'') (get body ''email'') st = None"
  shows "res_status (fst (submit_ts e w body st)) = 200"
proof -
  have t: "truthy (get body ''captchaToken'')"
    using assms(1) by (rule verifyCaptcha_ts_Ok)
  then have nn: "body \<noteq> JUndefined" "body \<noteq> JNull"
    by auto
  have "lookup (rest_without ''captchaToken'' body) ''roll_number'' = get body ''roll_number''"
    "lookup (rest_without ''captchaToken'' body) ''email'' = get body ''email''"
    using get_own_props [OF t] by (simp_all add: lookup_rest_without_any)
  then show ?thesis
    using assms nn by (simp add: submit_ts_def Let_def insertData_result)
qed

lemma insert_Diff_three: "insert i (A \<union> {c, s} - {i}) = A \<union> {c, s, i}"
  by blast

text \<open>The layout of the stored document, from the record it was built from.\<close>

lemma stored_document_layout:
  assumes t: "truthy (get body ''captchaToken'')"
    and d: "d = stored_form w (set_prop ''submittedAt'' v2 (set_prop ''createdAt'' v1
             (rest_without ''captchaToken'' body)))"
  shows "''captchaToken'' \<notin> set (map fst d)"
    "lookup d ''createdAt'' = v1" "lookup d ''submittedAt'' = v2"
    "\<forall>k. k \<notin> {''captchaToken'', ''createdAt'', ''submittedAt'', ''_id''}
        \<longrightarrow> lookup d k = get body k"
    "set (map fst d)
       = (set (map fst (own_props body)) - {''captchaToken''})
         \<union> {''createdAt'', ''submittedAt'', ''_id''}"
    "lookup d ''_id''
       = (if get body ''_id'' = JUndefined \<or> get body ''_id'' = JNull
          then JObjectId (new_id w) else get body ''_id'')"
proof -
  define doc where "doc = set_prop ''submittedAt'' v2 (set_prop ''createdAt'' v1
             (rest_without ''captchaToken'' body))"
  note f = saved_document_fields [OF doc_def]
  have s: "d = stored_form w doc"
    by (simp add: d doc_def)
  have g: "lookup (own_props body) k = get body k" for k
    using t by (rule get_own_props)
  show "''captchaToken'' \<notin> set (map fst d)"
    unfolding s keys_stored_form using f(6) by simp
  show "lookup d ''createdAt'' = v1" "lookup d ''submittedAt'' = v2"
    by (simp_all add: s lookup_stored_form f(1,2))
  show "\<forall>k. k \<notin> {''captchaToken'', ''createdAt'', ''submittedAt'', ''_id''}
        \<longrightarrow> lookup d k = get body k"
    using f(4) by (simp add: s lookup_stored_form g)
  show "set (map fst d)
       = (set (map fst (own_props body)) - {''captchaToken''})
         \<union> {''createdAt'', ''submittedAt'', ''_id''}"
    unfolding s keys_stored_form f(5) by (rule insert_Diff_three)
  have "lookup doc ''_id'' = get body ''_id''"
    using f(4) by (simp add: g)
  then show "lookup d ''_id''
       = (if get body ''_id'' = JUndefined \<or> get body ''_id'' = JNull
          then JObjectId (new_id w) else get body ''_id'')"
    by (simp add: s lookup_stored_form_id inserted_id_def)
qed

text \<open>
  Claim C5. In the function of \<^verbatim>\<open>index.cjs\<close> and in the server of \<^verbatim>\<open>server.ts\<close>
  alike: a submission that passes the checks, meets no failing store call and no
  duplicate is answered 200; a submission answered 200 has added one document to the
  store; and whatever a request adds to the store, whatever its answer, is one document
  without the token, with \<open>createdAt\<close> the first reading of the clock as a date, with
  \<open>submittedAt\<close> the second reading as ISO text, with every other submitted field
  unchanged, with the submitted fields less the token, those two and \<open>_id\<close> as its
  fields, and with the submitted \<open>_id\<close>, or the store's new identifier when none was
  submitted, as its \<open>_id\<close>. The record handed to \<^verbatim>\<open>insertOne\<close> or to
  \<^verbatim>\<open>insertData\<close> never has the token. For \<^verbatim>\<open>server.ts\<close> the persisting is that of
  \<^verbatim>\<open>insertData\<close> as the specification describes it.
\<close>

theorem persisted_document_layout:
  "(isValidFormData (req_body req) = Valid
      \<and> verifyCaptcha e (siteverify w) (get (req_body req) ''captchaToken'') = CaptchaOk score
      \<and> connect_fault w = None \<and> findOne_fault w = None \<and> insertOne_fault w = None
      \<and> close_fault w = None
      \<and> findOne (get (req_body req) ''roll_number'') (get (req_body req) ''email'') st = None
      \<and> req_method req = ''POST'' \<and> path_of req = ''/submit''
    \<longrightarrow> res_status (fst (handler e w req st)) = 200)
   \<and> (req_method req = ''POST'' \<and> path_of req = ''/submit''
      \<and> res_status (fst (handler e w req st)) = 200
    \<longrightarrow> (\<exists>doc. snd (handler e w req st)
              = \<lparr>docs = docs st @ [stored_form w doc],
                 ops = ops st @ [Connect,
                   FindOne (get (req_body req) ''roll_number'') (get (req_body req) ''email''),
                   InsertOne doc, Close]\<rparr>
           \<and> ''captchaToken'' \<notin> set (map fst doc)
           \<and> lookup doc ''createdAt'' = JDate (clock w 0)
           \<and> lookup doc ''submittedAt'' = JStr (toISOString w (clock w 1))
           \<and> (\<forall>k. k \<notin> {''captchaToken'', ''createdAt'', ''submittedAt''}
                 \<longrightarrow> lookup doc k = get (req_body req) k)
           \<and> set (map fst doc)
               = (set (map fst (own_props (req_body req))) - {''captchaToken''})
                 \<union> {''createdAt'', ''submittedAt''}))
   \<and> (docs (snd (handler e w req st)) = docs st
      \<or> (\<exists>d. docs (snd (handler e w req st)) = docs st @ [d]
            \<and> ''captchaToken'' \<notin> set (map fst d)
            \<and> lookup d ''createdAt'' = JDate (clock w 0)
            \<and> lookup d ''submittedAt'' = JStr (toISOString w (clock w 1))
            \<and> (\<forall>k. k \<notin> {''captchaToken'', ''createdAt'', ''submittedAt'', ''_id''}
                  \<longrightarrow> lookup d k = get (req_body req) k)
            \<and> set (map fst d)
                = (set (map fst (own_props (req_body req))) - {''captchaToken''})
                  \<union> {''createdAt'', ''submittedAt'', ''_id''}
            \<and> lookup d ''_id''
                = (if get (req_body req) ''_id'' = JUndefined \<or> get (req_body req) ''_id'' = JNull
                   then JObjectId (new_id w) else get (req_body req) ''_id'')))
   \<and> (verifyCaptcha_ts e (siteverify w) (get body ''captchaToken'') = CaptchaOk score_ts
      \<and> insertData_fault w = None
      \<and> findOne (get body ''roll_number'') (get body ''email'') st = None
    \<longrightarrow> res_status (fst (submit_ts e w body st)) = 200)
   \<and> (res_status (fst (submit_ts e w body st)) = 200
    \<longrightarrow> (\<exists>formData d. snd (submit_ts e w body st)
              = \<lparr>docs = docs st @ [d], ops = ops st @ [InsertData formData]\<rparr>
           \<and> ''captchaToken'' \<notin> set (map fst formData)
           \<and> (\<forall>k. k \<noteq> ''captchaToken'' \<longrightarrow> lookup formData k = get body k)
           \<and> set (map fst formData) = set (map fst (own_props body)) - {''captchaToken''}))
   \<and> (ops (snd (submit_ts e w body st)) = ops st
      \<or> (\<exists>formData. ops (snd (submit_ts e w body st)) = ops st @ [InsertData formData]
            \<and> ''captchaToken'' \<notin> set (map fst formData)))
   \<and> (docs (snd (submit_ts e w body st)) = docs st
      \<or> (\<exists>d. docs (snd (submit_ts e w body st)) = docs st @ [d]
            \<and> ''captchaToken'' \<notin> set (map fst d)
            \<and> lookup d ''createdAt'' = JDate (clock w 0)
            \<and> lookup d ''submittedAt'' = JStr (toISOString w (clock w 1))
            \<and> (\<forall>k. k \<notin> {''captchaToken'', ''createdAt'', ''submittedAt'', ''_id''}
                  \<longrightarrow> lookup d k = get body k)
            \<and> set (map fst d)
                = (set (map fst (own_props body)) - {''captchaToken''})
                  \<union> {''createdAt'', ''submittedAt'', ''_id''}
            \<and> lookup d ''_id''
                = (if get body ''_id'' = JUndefined \<or> get body ''_id'' = JNull
                   then JObjectId (new_id w) else get body ''_id'')))"
proof (intro conjI)
  define doc where "doc = set_prop ''submittedAt'' (JStr (toISOString w (clock w 1)))
             (set_prop ''createdAt'' (JDate (clock w 0))
               (rest_without ''captchaToken'' (req_body req)))"
  note f = saved_document_fields [OF doc_def]
  let ?st' = "\<lparr>docs = docs st @ [stored_form w doc],
                 ops = ops st @ [Connect,
                   FindOne (get (req_body req) ''roll_number'') (get (req_body req) ''email''),
                   InsertOne doc, Close]\<rparr>"
  have store: "(docs (snd (submit e w req st)) = docs st
        \<and> res_status (fst (submit e w req st)) \<noteq> 200)
     \<or> (isValidFormData (req_body req) = Valid \<and> snd (submit e w req st) = ?st')"
    unfolding doc_def by (rule submit_store)
  have t: "truthy (get (req_body req) ''captchaToken'')"
    if "isValidFormData (req_body req) = Valid"
    using that by (simp add: isValidFormData_Valid required_present_well_typed_def)
  show "isValidFormData (req_body req) = Valid
      \<and> verifyCaptcha e (siteverify w) (get (req_body req) ''captchaToken'') = CaptchaOk score
      \<and> connect_fault w = None \<and> findOne_fault w = None \<and> insertOne_fault w = None
      \<and> close_fault w = None
      \<and> findOne (get (req_body req) ''roll_number'') (get (req_body req) ''email'') st = None
      \<and> req_method req = ''POST'' \<and> path_of req = ''/submit''
    \<longrightarrow> res_status (fst (handler e w req st)) = 200"
  proof
    assume a: "isValidFormData (req_body req) = Valid
      \<and> verifyCaptcha e (siteverify w) (get (req_body req) ''captchaToken'') = CaptchaOk score
      \<and> connect_fault w = None \<and> findOne_fault w = None \<and> insertOne_fault w = None
      \<and> close_fault w = None
      \<and> findOne (get (req_body req) ''roll_number'') (get (req_body req) ''email'') st = None
      \<and> req_method req = ''POST'' \<and> path_of req = ''/submit''"
    from submit_inserted [where req = req and e = e and w = w and st = st and doc = doc
        and score = score] a
    show "res_status (fst (handler e w req st)) = 200"
      by (simp add: handler_submit_route doc_def sendJsonResponse_def)
  qed
  show "req_method req = ''POST'' \<and> path_of req = ''/submit''
      \<and> res_status (fst (handler e w req st)) = 200
    \<longrightarrow> (\<exists>doc. snd (handler e w req st)
              = \<lparr>docs = docs st @ [stored_form w doc],
                 ops = ops st @ [Connect,
                   FindOne (get (req_body req) ''roll_number'') (get (req_body req) ''email''),
                   InsertOne doc, Close]\<rparr>
           \<and> ''captchaToken'' \<notin> set (map fst doc)
           \<and> lookup doc ''createdAt'' = JDate (clock w 0)
           \<and> lookup doc ''submittedAt'' = JStr (toISOString w (clock w 1))
           \<and> (\<forall>k. k \<notin> {''captchaToken'', ''createdAt'', ''submittedAt''}
                 \<longrightarrow> lookup doc k = get (req_body req) k)
           \<and> set (map fst doc)
               = (set (map fst (own_props (req_body req))) - {''captchaToken''})
                 \<union> {''createdAt'', ''submittedAt''})"
  proof
    assume a: "req_method req = ''POST'' \<and> path_of req = ''/submit''
      \<and> res_status (fst (handler e w req st)) = 200"
    then have h: "handler e w req st = submit e w req st"
      by (simp add: handler_submit_route)
    with a store have v: "isValidFormData (req_body req) = Valid"
      and s: "snd (handler e w req st) = ?st'"
      by auto
    have "\<forall>k. k \<notin> {''captchaToken'', ''createdAt'', ''submittedAt''}
                 \<longrightarrow> lookup doc k = get (req_body req) k"
      using f(4) get_own_props [OF t [OF v]] by simp
    with s f(1,2,5,6) show "\<exists>doc. snd (handler e w req st)
              = \<lparr>docs = docs st @ [stored_form w doc],
                 ops = ops st @ [Connect,
                   FindOne (get (req_body req) ''roll_number'') (get (req_body req) ''email''),
                   InsertOne doc, Close]\<rparr>
           \<and> ''captchaToken'' \<notin> set (map fst doc)
           \<and> lookup doc ''createdAt'' = JDate (clock w 0)
           \<and> lookup doc ''submittedAt'' = JStr (toISOString w (clock w 1))
           \<and> (\<forall>k. k \<notin> {''captchaToken'', ''createdAt'', ''submittedAt''}
                 \<longrightarrow> lookup doc k = get (req_body req) k)
           \<and> set (map fst doc)
               = (set (map fst (own_props (req_body req))) - {''captchaToken''})
                 \<union> {''createdAt'', ''submittedAt''}"
      by blast
  qed
  show "docs (snd (handler e w req st)) = docs st
      \<or> (\<exists>d. docs (snd (handler e w req st)) = docs st @ [d]
            \<and> ''captchaToken'' \<notin> set (map fst d)
            \<and> lookup d ''createdAt'' = JDate (clock w 0)
            \<and> lookup d ''submittedAt'' = JStr (toISOString w (clock w 1))
            \<and> (\<forall>k. k \<notin> {''captchaToken'', ''createdAt'', ''submittedAt'', ''_id''}
                  \<longrightarrow> lookup d k = get (req_body req) k)
            \<and> set (map fst d)
                = (set (map fst (own_props (req_body req))) - {''captchaToken''})
                  \<union> {''createdAt'', ''submittedAt'', ''_id''}
            \<and> lookup d ''_id''
                = (if get (req_body req) ''_id'' = JUndefined \<or> get (req_body req) ''_id'' = JNull
                   then JObjectId (new_id w) else get (req_body req) ''_id''))"
  proof (cases "docs (snd (handler e w req st)) = docs st")
    case True
    then show ?thesis ..
  next
    case False
    then have r: "path_of req = ''/submit'' \<and> req_method req = ''POST''"
      using handler_other_docs [of req e w st] by blast
    then have h: "handler e w req st = submit e w req st"
      by (simp add: handler_submit_route)
    with False store have v: "isValidFormData (req_body req) = Valid"
      and s: "docs (snd (handler e w req st)) = docs st @ [stored_form w doc]"
      by auto
    note l = stored_document_layout [OF t [OF v], of "stored_form w doc" w
        "JStr (toISOString w (clock w 1))" "JDate (clock w 0)", OF doc_def [THEN arg_cong]]
    from s l show ?thesis
      by blast
  qed
next
  define formData where "formData = rest_without ''captchaToken'' body"
  define d where "d = stored_form w (set_prop ''submittedAt'' (JStr (toISOString w (clock w 1)))
                   (set_prop ''createdAt'' (JDate (clock w 0))
                     (rest_without ''captchaToken'' body)))"
  have store: "(snd (submit_ts e w body st) = st \<and> res_status (fst (submit_ts e w body st)) \<noteq> 200)
   \<or> (truthy (get body ''captchaToken'')
       \<and> snd (submit_ts e w body st) = st\<lparr>ops := ops st @ [InsertData formData]\<rparr>
       \<and> res_status (fst (submit_ts e w body st)) \<noteq> 200)
   \<or> (truthy (get body ''captchaToken'')
       \<and> snd (submit_ts e w body st)
           = \<lparr>docs = docs st @ [d], ops = ops st @ [InsertData formData]\<rparr>)"
    unfolding formData_def d_def by (rule submit_ts_store)
  have k: "''captchaToken'' \<notin> set (map fst formData)"
    "set (map fst formData) = set (map fst (own_props body)) - {''captchaToken''}"
    unfolding formData_def by (simp_all only: keys_rest_without) simp
  have g: "\<forall>k. k \<noteq> ''captchaToken'' \<longrightarrow> lookup formData k = get body k"
    if "truthy (get body ''captchaToken'')"
    using get_own_props [OF that] by (simp add: formData_def lookup_rest_without_any)
  show "verifyCaptcha_ts e (siteverify w) (get body ''captchaToken'') = CaptchaOk score_ts
      \<and> insertData_fault w = None
      \<and> findOne (get body ''roll_number'') (get body ''email'') st = None
    \<longrightarrow> res_status (fst (submit_ts e w body st)) = 200"
    using submit_ts_succeeds [of e w body score_ts st] by blast
  show "res_status (fst (submit_ts e w body st)) = 200
    \<longrightarrow> (\<exists>formData d. snd (submit_ts e w body st)
              = \<lparr>docs = docs st @ [d], ops = ops st @ [InsertData formData]\<rparr>
           \<and> ''captchaToken'' \<notin> set (map fst formData)
           \<and> (\<forall>k. k \<noteq> ''captchaToken'' \<longrightarrow> lookup formData k = get body k)
           \<and> set (map fst formData) = set (map fst (own_props body)) - {''captchaToken''})"
    using store k g by blast
  show "ops (snd (submit_ts e w body st)) = ops st
      \<or> (\<exists>formData. ops (snd (submit_ts e w body st)) = ops st @ [InsertData formData]
            \<and> ''captchaToken'' \<notin> set (map fst formData))"
    using store k(1) by auto
  show "docs (snd (submit_ts e w body st)) = docs st
      \<or> (\<exists>d. docs (snd (submit_ts e w body st)) = docs st @ [d]
            \<and> ''captchaToken'' \<notin> set (map fst d)
            \<and> lookup d ''createdAt'' = JDate (clock w 0)
            \<and> lookup d ''submittedAt'' = JStr (toISOString w (clock w 1))
            \<and> (\<forall>k. k \<notin> {''captchaToken'', ''createdAt'', ''submittedAt'', ''_id''}
                  \<longrightarrow> lookup d k = get body k)
            \<and> set (map fst d)
                = (set (map fst (own_props body)) - {''captchaToken''})
                  \<union> {''createdAt'', ''submittedAt'', ''_id''}
            \<and> lookup d ''_id''
                = (if get body ''_id'' = JUndefined \<or> get body ''_id'' = JNull
                   then JObjectId (new_id w) else get body ''_id''))"
  proof (cases "docs (snd (submit_ts e w body st)) = docs st")
    case True
    then show ?thesis ..
  next
    case False
    with store have t: "truthy (get body ''captchaToken'')"
      and s: "docs (snd (submit_ts e w body st)) = docs st @ [d]"
      by auto
    note l = stored_document_layout [OF t d_def]
    from s l show ?thesis
      by blast
  qed
qed

lemma valid_record_Valid: "isValidFormData (JObj (valid_record ''ann@x.com'')) = Valid"
  "isValidFormData (JObj (valid_record ''bob@y.org'')) = Valid"
  by (simp_all add: isValidFormData_def valid_record_def lookup_def regex_eval
      optionalStringFields_def)

lemma valid_record_fields:
  "get (JObj (valid_record em)) ''captchaToken'' = JStr ''tok''"
  "get (JObj (valid_record em)) ''roll_number'' = JNum (Finite 7)"
  "get (JObj (valid_record em)) ''email'' = JStr em"
  "lookup (valid_record em) ''captchaToken'' = JStr ''tok''"
  "lookup (valid_record em) ''roll_number'' = JNum (Finite 7)"
  "lookup (valid_record em) ''email'' = JStr em"
  by (simp_all add: valid_record_def lookup_def)

lemma accepting_world_simps:
  "verifyCaptcha test_env (siteverify accepting_world) (JStr ''tok'') = CaptchaOk None"
  "connect_fault accepting_world = None" "findOne_fault accepting_world = None"
  "insertOne_fault accepting_world = None" "close_fault accepting_world = None"
  "clock accepting_world n = 1000 + n"
  "toISOString accepting_world t = ''2025-09-01T10:00:00.000Z''"
  "new_id accepting_world = 41"
  "verifyCaptcha_ts test_env (siteverify accepting_world) (JStr ''tok'') = CaptchaOk None"
  "insertData_fault accepting_world = None"
  by (simp_all add: accepting_world_def verifyCaptcha_def verifyCaptcha_ts_def test_env_def)

lemma first_submission:
  "handler test_env accepting_world (submit_request (JObj (valid_record ''ann@x.com'')))
      empty_store
   = (sendJsonResponse test_env
        (JObj [(''success'', JBool True),
               (''id'', JStr (to_string accepting_world (JObjectId 41))),
               (''message'', JStr ''Form submitted successfully'')]) 200,
      \<lparr>docs = [(''_id'', JObjectId 41) # ann_document],
        ops = [Connect, FindOne (JNum (Finite 7)) (JStr ''ann@x.com''),
               InsertOne ann_document, Close]\<rparr>)"
proof -
  have doc: "ann_document = set_prop ''submittedAt''
        (JStr (toISOString accepting_world (clock accepting_world 1)))
        (set_prop ''createdAt'' (JDate (clock accepting_world 0))
          (rest_without ''captchaToken''
            (req_body (submit_request (JObj (valid_record ''ann@x.com''))))))"
    by (simp add: ann_document_def submit_request_simps accepting_world_simps rest_without_def
        valid_record_def)
  have st: "stored_form accepting_world ann_document = (''_id'', JObjectId 41) # ann_document"
    "inserted_id accepting_world ann_document = JObjectId 41"
    by (simp_all add: stored_form_def inserted_id_def ann_document_def lookup_def
        accepting_world_simps)
  have "findOne (JNum (Finite 7)) (JStr ''ann@x.com'') empty_store = None"
    by (simp add: findOne_def empty_store_def)
  then show ?thesis
    using submit_inserted [where req = "submit_request (JObj (valid_record ''ann@x.com''))"
        and e = test_env and w = accepting_world and st = empty_store and doc = ann_document
        and score = None] doc
    by (simp add: handler_submit_route submit_request_simps valid_record_Valid
        valid_record_fields accepting_world_simps st empty_store_def)
qed

lemma submission_before_failing_close:
  "handler test_env (accepting_world\<lparr>close_fault := Some (Error ''MongoError'' ''closed'')\<rparr>)
      (submit_request (JObj (valid_record ''ann@x.com''))) empty_store
   = (db_error_response test_env ''Failed to save data'' (Error ''MongoError'' ''closed''),
      \<lparr>docs = [(''_id'', JObjectId 41) # ann_document],
        ops = [Connect, FindOne (JNum (Finite 7)) (JStr ''ann@x.com''),
               InsertOne ann_document, Close]\<rparr>)"
  by (simp add: handler_submit_route submit_request_simps submit_def valid_record_Valid
      accepting_world_def verifyCaptcha_def test_env_def Let_def findOne_def record_op_def
      insertOne_def empty_store_def)
     (simp add: valid_record_def rest_without_def lookup_def stored_form_def inserted_id_def
      ann_document_def)

lemma first_submission_ts:
  "submit_ts test_env accepting_world (JObj (valid_record ''ann@x.com'')) empty_store
   = (\<lparr>res_status = 200, res_payload = Text ''Data submitted successfully!'', res_headers = []\<rparr>,
      \<lparr>docs = [(''_id'', JObjectId 41) # ann_document],
        ops = [InsertData (tl (valid_record ''ann@x.com''))]\<rparr>)"
  "docs (snd (submit_ts test_env accepting_world
      (JObj (valid_record ''ann@x.com'' @ [(''_id'', JNull)])) empty_store))
   = [(''_id'', JObjectId 41) # ann_document]"
  by (simp_all add: submit_ts_def Let_def insertData_result accepting_world_def
      verifyCaptcha_ts_def test_env_def findOne_def empty_store_def valid_record_def
      rest_without_def lookup_def stored_form_def inserted_id_def ann_document_def)

text \<open>
  The submission of one record into the empty store, to the function and to the
  server; the same submission with a null \<open>_id\<close>; and the submission to the function
  when closing the connection fails: the answer is 500 and the document is stored.
\<close>

theorem persisted_document_layout_witness:
  "res_status (fst (handler test_env accepting_world
       (submit_request (JObj (valid_record ''ann@x.com''))) empty_store)) = 200
   \<and> snd (handler test_env accepting_world
       (submit_request (JObj (valid_record ''ann@x.com''))) empty_store)
     = \<lparr>docs = [(''_id'', JObjectId 41) # ann_document],
        ops = [Connect, FindOne (JNum (Finite 7)) (JStr ''ann@x.com''),
               InsertOne ann_document, Close]\<rparr>
   \<and> res_status (fst (handler test_env
       (accepting_world\<lparr>close_fault := Some (Error ''MongoError'' ''closed'')\<rparr>)
       (submit_request (JObj (valid_record ''ann@x.com''))) empty_store)) = 500
   \<and> docs (snd (handler test_env
       (accepting_world\<lparr>close_fault := Some (Error ''MongoError'' ''closed'')\<rparr>)
       (submit_request (JObj (valid_record ''ann@x.com''))) empty_store))
     = [(''_id'', JObjectId 41) # ann_document]
   \<and> res_status (fst (submit_ts test_env accepting_world (JObj (valid_record ''ann@x.com''))
       empty_store)) = 200
   \<and> snd (submit_ts test_env accepting_world (JObj (valid_record ''ann@x.com'')) empty_store)
     = \<lparr>docs = [(''_id'', JObjectId 41) # ann_document],
        ops = [InsertData (tl (valid_record ''ann@x.com''))]\<rparr>
   \<and> docs (snd (submit_ts test_env accepting_world
        (JObj (valid_record ''ann@x.com'' @ [(''_id'', JNull)])) empty_store))
     = [(''_id'', JObjectId 41) # ann_document]
   \<and> ''captchaToken'' \<notin> set (map fst ((''_id'', JObjectId 41) # ann_document))
   \<and> lookup ann_document ''createdAt'' = JDate 1000
   \<and> lookup ann_document ''submittedAt'' = JStr ''2025-09-01T10:00:00.000Z''
   \<and> lookup ann_document ''email'' = JStr ''ann@x.com''"
proof -
  have "findOne (JNum (Finite 7)) (JStr ''ann@x.com'') empty_store = None"
    by (simp add: findOne_def empty_store_def)
  then have "res_status (fst (handler test_env accepting_world
       (submit_request (JObj (valid_record ''ann@x.com''))) empty_store)) = 200
    \<and> res_status (fst (submit_ts test_env accepting_world (JObj (valid_record ''ann@x.com''))
       empty_store)) = 200"
    using persisted_document_layout
      [where req = "submit_request (JObj (valid_record ''ann@x.com''))" and e = test_env
        and w = accepting_world and st = empty_store and score = None
        and body = "JObj (valid_record ''ann@x.com'')" and score_ts = None]
    by (simp add: submit_request_simps valid_record_Valid valid_record_fields
        accepting_world_simps)
  moreover have "''captchaToken'' \<notin> set (map fst ((''_id'', JObjectId 41) # ann_document))"
    "lookup ann_document ''createdAt'' = JDate 1000"
    "lookup ann_document ''submittedAt'' = JStr ''2025-09-01T10:00:00.000Z''"
    "lookup ann_document ''email'' = JStr ''ann@x.com''"
    by (simp_all add: ann_document_def lookup_def)
  ultimately show ?thesis
    by (simp add: first_submission first_submission_ts submission_before_failing_close
        db_error_response_def sendJsonResponse_def)
qed

lemma duplicate_query:
  "isValidFormData (req_body req) = Valid
     \<and> verifyCaptcha e (siteverify w) (get (req_body req) ''captchaToken'') = CaptchaOk score
     \<and> connect_fault w = None \<and> findOne_fault w = None \<and> close_fault w = None
     \<and> req_method req = ''POST'' \<and> path_of req = ''/submit''
   \<longrightarrow> (\<exists>rest. ops (snd (handler e w req st))
          = ops st @ Connect
              # FindOne (get (req_body req) ''roll_number'') (get (req_body req) ''email'')
              # rest)
      \<and> (\<forall>d. findOne (get (req_body req) ''roll_number'') (get (req_body req) ''email'') st
               = Some d
            \<longrightarrow> d \<in> set (docs st)
              \<and> (lookup d ''roll_number'' = get (req_body req) ''roll_number''
                  \<or> lookup d ''email'' = get (req_body req) ''email'')
              \<and> handler e w req st
                = (sendJsonResponse e
                     (JObj [(''error'', JStr (''Registration with this ''
                        @ (if lookup d ''roll_number'' = get (req_body req) ''roll_number''
                           then ''roll number'' else ''email'')
                        @ '' already exists''))]) 409,
                   st\<lparr>ops := ops st @ [Connect,
                      FindOne (get (req_body req) ''roll_number'')
                        (get (req_body req) ''email''), Close]\<rparr>))
      \<and> ((findOne (get (req_body req) ''roll_number'') (get (req_body req) ''email'') st = None)
           = (\<forall>d \<in> set (docs st).
                lookup d ''roll_number'' \<noteq> get (req_body req) ''roll_number''
                \<and> lookup d ''email'' \<noteq> get (req_body req) ''email''))
      \<and> (findOne (get (req_body req) ''roll_number'') (get (req_body req) ''email'') st = None
          \<longrightarrow> res_status (fst (handler e w req st)) \<noteq> 409)"
proof (intro impI)
  assume a: "isValidFormData (req_body req) = Valid
     \<and> verifyCaptcha e (siteverify w) (get (req_body req) ''captchaToken'') = CaptchaOk score
     \<and> connect_fault w = None \<and> findOne_fault w = None \<and> close_fault w = None
     \<and> req_method req = ''POST'' \<and> path_of req = ''/submit''"
  let ?r = "get (req_body req) ''roll_number''" and ?m = "get (req_body req) ''email''"
  have h: "handler e w req st = submit e w req st"
    using a by (simp add: handler_submit_route)
  have found: "handler e w req st
                = (sendJsonResponse e
                     (JObj [(''error'', JStr (''Registration with this ''
                        @ (if lookup d ''roll_number'' = ?r then ''roll number'' else ''email'')
                        @ '' already exists''))]) 409,
                   st\<lparr>ops := ops st @ [Connect, FindOne ?r ?m, Close]\<rparr>)"
    if "findOne ?r ?m st = Some d" for d
    unfolding h using a that by (intro submit_found) simp_all
  have inserted: "\<exists>rest. ops (snd (handler e w req st)) = ops st @ Connect # FindOne ?r ?m # rest
      \<and> res_status (fst (handler e w req st)) \<noteq> 409"
    if n: "findOne ?r ?m st = None"
  proof (cases "insertOne_fault w")
    case None
    from submit_inserted [where req = req and e = e and w = w and st = st and score = score,
        OF _ _ _ _ _ None n refl] a
    show ?thesis
      by (simp add: h sendJsonResponse_def)
  next
    case (Some err)
    obtain kvs where b: "req_body req = JObj kvs"
      using valid_is_object a by blast
    have "findOne (lookup kvs ''roll_number'') (lookup kvs ''email'') st = None"
      using n b by simp
    with a Some show ?thesis
      by (simp add: h submit_def b lookup_rest_without Let_def findOne_ops record_op_def
          db_error_response_def sendJsonResponse_def)
  qed
  have ops: "\<exists>rest. ops (snd (handler e w req st)) = ops st @ Connect # FindOne ?r ?m # rest"
  proof (cases "findOne ?r ?m st")
    case None
    with inserted show ?thesis by blast
  next
    case (Some d)
    from found [OF this] show ?thesis by simp
  qed
  show "(\<exists>rest. ops (snd (handler e w req st)) = ops st @ Connect # FindOne ?r ?m # rest)
      \<and> (\<forall>d. findOne ?r ?m st = Some d
            \<longrightarrow> d \<in> set (docs st)
              \<and> (lookup d ''roll_number'' = ?r \<or> lookup d ''email'' = ?m)
              \<and> handler e w req st
                = (sendJsonResponse e
                     (JObj [(''error'', JStr (''Registration with this ''
                        @ (if lookup d ''roll_number'' = ?r then ''roll number'' else ''email'')
                        @ '' already exists''))]) 409,
                   st\<lparr>ops := ops st @ [Connect, FindOne ?r ?m, Close]\<rparr>))
      \<and> ((findOne ?r ?m st = None)
           = (\<forall>d \<in> set (docs st). lookup d ''roll_number'' \<noteq> ?r \<and> lookup d ''email'' \<noteq> ?m))
      \<and> (findOne ?r ?m st = None \<longrightarrow> res_status (fst (handler e w req st)) \<noteq> 409)"
    using ops found findOne_Some [of ?r ?m st] findOne_None [of ?r ?m st] inserted
    by blast
qed

lemma sequential_duplicate:
  assumes v1: "isValidFormData (req_body req) = Valid"
    and c1: "verifyCaptcha e (siteverify w) (get (req_body req) ''captchaToken'') = CaptchaOk score"
    and vb: "isValidFormData (req_body req_b) = Valid"
    and cb: "verifyCaptcha e (siteverify w) (get (req_body req_b) ''captchaToken'')
               = CaptchaOk score_b"
    and faults: "connect_fault w = None" "findOne_fault w = None" "insertOne_fault w = None"
      "close_fault w = None"
    and routes: "req_method req = ''POST''" "path_of req = ''/submit''"
      "req_method req_b = ''POST''" "path_of req_b = ''/submit''"
    and empty: "docs st = []"
    and same: "get (req_body req_b) ''roll_number'' = get (req_body req) ''roll_number''"
  shows "res_status (fst (handler e w req st)) = 200
     \<and> fst (handler e w req_b (snd (handler e w req st)))
       = sendJsonResponse e
           (JObj [(''error'', JStr ''Registration with this roll number already exists'')]) 409"
proof -
  let ?r = "get (req_body req) ''roll_number''"
  define doc where "doc = set_prop ''submittedAt'' (JStr (toISOString w (clock w 1)))
             (set_prop ''createdAt'' (JDate (clock w 0))
               (rest_without ''captchaToken'' (req_body req)))"
  let ?st' = "\<lparr>docs = docs st @ [stored_form w doc],
        ops = ops st @ [Connect, FindOne ?r (get (req_body req) ''email''),
          InsertOne doc, Close]\<rparr>"
  have none: "findOne ?r (get (req_body req) ''email'') st = None"
    by (simp add: findOne_def empty)
  have first: "submit e w req st =
     (sendJsonResponse e
        (JObj [(''success'', JBool True), (''id'', JStr (to_string w (inserted_id w doc))),
               (''message'', JStr ''Form submitted successfully'')]) 200, ?st')"
    using v1 c1 faults(1,2) faults(4) faults(3) none doc_def by (rule submit_inserted)
  have t: "truthy (get (req_body req) ''captchaToken'')"
    using v1 by (simp add: isValidFormData_Valid required_present_well_typed_def)
  have "lookup doc ''roll_number'' = lookup (own_props (req_body req)) ''roll_number''"
    using saved_document_fields(4) [OF doc_def] by simp
  then have "lookup (stored_form w doc) ''roll_number'' = ?r"
    using get_own_props [OF t] by (simp add: lookup_stored_form)
  then have found: "findOne (get (req_body req_b) ''roll_number'') (get (req_body req_b) ''email'') ?st'
      = Some (stored_form w doc)"
    and eq: "lookup (stored_form w doc) ''roll_number'' = get (req_body req_b) ''roll_number''"
    by (simp_all add: findOne_def matches_or_def empty same)
  have "submit e w req_b ?st' =
     (sendJsonResponse e
        (JObj [(''error'', JStr (''Registration with this ''
           @ (if lookup (stored_form w doc) ''roll_number'' = get (req_body req_b) ''roll_number''
              then ''roll number'' else ''email'')
           @ '' already exists''))]) 409,
      ?st'\<lparr>ops := ops ?st' @ [Connect,
         FindOne (get (req_body req_b) ''roll_number'') (get (req_body req_b) ''email''), Close]\<rparr>)"
    using vb cb faults(1,2) faults(4) found by (rule submit_found)
  then show ?thesis
    using first eq routes by (simp add: handler_submit_route sendJsonResponse_def)
qed

text \<open>
  Claim C4. A submission that passes validation and the abuse check, with a store
  whose calls succeed, connects and asks the store for a record with its roll number
  or its email. When one is found the answer is 409, and its message names the roll
  number when the found record has the submitted roll number, whether or not the email
  matches too, and the email otherwise; when none is found the answer is not 409. Hence
  two submissions with one roll number and different emails, one after the other into
  an empty store, give 200 and then the 409 that names the roll number.
\<close>

theorem duplicate_check:
  "(isValidFormData (req_body req) = Valid
     \<and> verifyCaptcha e (siteverify w) (get (req_body req) ''captchaToken'') = CaptchaOk score
     \<and> connect_fault w = None \<and> findOne_fault w = None \<and> close_fault w = None
     \<and> req_method req = ''POST'' \<and> path_of req = ''/submit''
   \<longrightarrow> (\<exists>rest. ops (snd (handler e w req st))
          = ops st @ Connect
              # FindOne (get (req_body req) ''roll_number'') (get (req_body req) ''email'')
              # rest)
      \<and> (\<forall>d. findOne (get (req_body req) ''roll_number'') (get (req_body req) ''email'') st
               = Some d
            \<longrightarrow> d \<in> set (docs st)
              \<and> (lookup d ''roll_number'' = get (req_body req) ''roll_number''
                  \<or> lookup d ''email'' = get (req_body req) ''email'')
              \<and> handler e w req st
                = (sendJsonResponse e
                     (JObj [(''error'', JStr (''Registration with this ''
                        @ (if lookup d ''roll_number'' = get (req_body req) ''roll_number''
                           then ''roll number'' else ''email'')
                        @ '' already exists''))]) 409,
                   st\<lparr>ops := ops st @ [Connect,
                      FindOne (get (req_body req) ''roll_number'')
                        (get (req_body req) ''email''), Close]\<rparr>))
      \<and> ((findOne (get (req_body req) ''roll_number'') (get (req_body req) ''email'') st = None)
           = (\<forall>d \<in> set (docs st).
                lookup d ''roll_number'' \<noteq> get (req_body req) ''roll_number''
                \<and> lookup d ''email'' \<noteq> get (req_body req) ''email''))
      \<and> (findOne (get (req_body req) ''roll_number'') (get (req_body req) ''email'') st = None
          \<longrightarrow> res_status (fst (handler e w req st)) \<noteq> 409))
   \<and> (isValidFormData (req_body req) = Valid
        \<and> verifyCaptcha e (siteverify w) (get (req_body req) ''captchaToken'') = CaptchaOk score
        \<and> isValidFormData (req_body req_b) = Valid
        \<and> verifyCaptcha e (siteverify w) (get (req_body req_b) ''captchaToken'')
            = CaptchaOk score_b
        \<and> connect_fault w = None \<and> findOne_fault w = None \<and> insertOne_fault w = None
        \<and> close_fault w = None
        \<and> req_method req = ''POST'' \<and> path_of req = ''/submit''
        \<and> req_method req_b = ''POST'' \<and> path_of req_b = ''/submit''
        \<and> docs st = []
        \<and> get (req_body req_b) ''roll_number'' = get (req_body req) ''roll_number''
        \<and> get (req_body req_b) ''email'' \<noteq> get (req_body req) ''email''
      \<longrightarrow> res_status (fst (handler e w req st)) = 200
         \<and> fst (handler e w req_b (snd (handler e w req st)))
           = sendJsonResponse e
               (JObj [(''error'', JStr ''Registration with this roll number already exists'')])
               409)"
  using duplicate_query [of req e w score st] sequential_duplicate [of req e w score req_b score_b st]
  by blast

text \<open>Two records with roll number 7, one after the other.\<close>

theorem duplicate_check_witness:
  "res_status (fst (handler test_env accepting_world
       (submit_request (JObj (valid_record ''ann@x.com''))) empty_store)) = 200
   \<and> fst (handler test_env accepting_world (submit_request (JObj (valid_record ''bob@y.org'')))
       (snd (handler test_env accepting_world
          (submit_request (JObj (valid_record ''ann@x.com''))) empty_store)))
     = sendJsonResponse test_env
         (JObj [(''error'', JStr ''Registration with this roll number already exists'')]) 409"
proof -
  let ?st = "\<lparr>docs = [(''_id'', JObjectId 41) # ann_document],
        ops = [Connect, FindOne (JNum (Finite 7)) (JStr ''ann@x.com''),
               InsertOne ann_document, Close]\<rparr>"
  have f: "findOne (JNum (Finite 7)) (JStr ''bob@y.org'') ?st
      = Some ((''_id'', JObjectId 41) # ann_document)"
    by (simp add: findOne_def matches_or_def ann_document_def lookup_def)
  have l: "lookup ((''_id'', JObjectId 41) # ann_document) ''roll_number'' = JNum (Finite 7)"
    by (simp add: ann_document_def lookup_def)
  show ?thesis
    using duplicate_check [where req = "submit_request (JObj (valid_record ''bob@y.org''))"
        and e = test_env and w = accepting_world and st = ?st and score = None
        and req_b = "submit_request (JObj (valid_record ''bob@y.org''))" and score_b = None]
      duplicate_check [where req = "submit_request (JObj (valid_record ''ann@x.com''))"
        and e = test_env and w = accepting_world and st = empty_store and score = None
        and req_b = "submit_request (JObj (valid_record ''bob@y.org''))" and score_b = None] f
    by (simp add: first_submission sendJsonResponse_def submit_request_simps valid_record_Valid
        valid_record_fields accepting_world_simps l)
qed

end
